theory Spec2Isabelle
  imports Main "HOL-Library.Word"
begin

section \<open>Values, queues and signals of the assistant core\<close>

text \<open>
  The program is one Python class, \<open>AI_Core\<close>, whose coroutines share the fields of the
  object: the video mode, the running flag, the remote session, four queues and the latest
  frame. The model is a record with those fields, threaded through every operation.

  Python values that travel in tool-call arguments and tool results are dynamically typed;
  the code tests them with \<open>isinstance\<close> and by truthiness, so the model keeps a datatype
  of values. Strings are lists of characters, byte strings are lists of 8-bit words.
\<close>

type_synonym bytes = "8 word list"

datatype pyval =
    PNone
  | PBool bool
  | PInt int
  | PStr string
  | PBytes bytes
  | PList "pyval list"

type_synonym pydict = "(string \<times> pyval) list"

text \<open>A frame is the pixel buffer the capture produced.\<close>

type_synonym frame = bytes

text \<open>One answer to a tool call, as appended to \<open>function_responses\<close>.\<close>

record tool_response =
  tr_id :: string
  tr_name :: string
  tr_response :: pydict

text \<open>
  The calls the remote session receives. \<open>Send_client_content\<close> carries the list of turns,
  each a role with the texts of its parts. A call on an open session is taken to succeed:
  failures of the transport are not part of the model.
\<close>

datatype session_call =
    Send_tool_response "tool_response list"
  | Send_realtime_audio pyval string
  | Send_realtime_video bytes string
  | Send_client_content "(string \<times> string list) list"

text \<open>The Qt signals of \<open>AI_Core\<close>, in the order of their declaration.\<close>

datatype signal =
    Text_received string
  | End_of_turn
  | Frame_received "frame option"
  | Search_results_received "string set"
  | Code_being_executed string string
  | File_list_received pyval pyval
  | File_search_received string "string list"
  | File_opened_received string
  | Tool_activity_received string "string list"
  | Video_mode_changed string
  | Speaking_started
  | Speaking_stopped

datatype capture = VideoCapture nat

text \<open>What the capture loop does to the camera device and to the screen.\<close>

datatype device_event = Opened | Read_frame | Released | Grabbed

text \<open>
  A raised Python exception (a subclass of \<open>Exception\<close>): its class name and the text
  \<open>str(e)\<close> gives. Fallible operations return \<open>exn + 'a\<close>, with \<open>Inl\<close> for a raise.
\<close>

datatype exn = Exn string string

fun exn_class :: "exn \<Rightarrow> string" where
  "exn_class (Exn c m) = c"

fun exn_str :: "exn \<Rightarrow> string" where
  "exn_str (Exn c m) = m"

text \<open>
  The fields of \<open>AI_Core\<close>. A queue is the list of its pending items, oldest first.
  \<open>session\<close> is \<open>None\<close> until \<open>main_task_runner\<close> stores the session; afterwards it
  holds the calls the session has received, oldest first. \<open>signals\<close> is the list of the
  signals emitted so far. \<open>video_capture\<close> is the local variable of
  \<open>stream_video_to_gui\<close>, kept in the record so that the mode switch and the capture
  loop can be looked at together, and \<open>devices\<close> is the list of what that loop has done
  to the camera and the screen so far. \<open>world\<close> is the state of the operating system
  the tools act on.
\<close>

record 'w core =
  video_mode :: string
  is_running :: bool
  session :: "session_call list option"
  out_queue_gemini :: "pydict list"
  response_queue_tts :: "string option list"
  audio_in_queue_player :: "bytes list"
  text_input_queue :: "string option list"
  latest_frame :: "frame option"
  signals :: "signal list"
  video_capture :: "capture option"
  devices :: "device_event list"
  world :: 'w

definition emit :: "signal \<Rightarrow> 'w core \<Rightarrow> 'w core" where
  "emit sg s = s\<lparr>signals := signals s @ [sg]\<rparr>"

definition session_send :: "session_call \<Rightarrow> 'w core \<Rightarrow> 'w core" where
  "session_send c s = s\<lparr>session := map_option (\<lambda>log. log @ [c]) (session s)\<rparr>"

definition init_core :: "string \<Rightarrow> 'w \<Rightarrow> 'w core" where
  "init_core mode w =
     \<lparr>video_mode = mode, is_running = True, session = None, out_queue_gemini = [],
      response_queue_tts = [], audio_in_queue_player = [], text_input_queue = [],
      latest_frame = None, signals = [], video_capture = None, devices = [], world = w\<rparr>"

section \<open>Video mode switch\<close>

text \<open>
  \<^verbatim>\<open>
  def set_video_mode(self, mode):
      if mode in ["camera", "screen", "none"]:
          self.video_mode = mode
          if mode == "none":
              self.latest_frame = None
          self.video_mode_changed.emit(mode)
  \<close>
\<close>

definition video_modes :: "string list" where
  "video_modes = [''camera'', ''screen'', ''none'']"

definition set_video_mode :: "string \<Rightarrow> 'w core \<Rightarrow> 'w core" where
  "set_video_mode mode s =
     (if mode \<in> set video_modes then
        let s1 = s\<lparr>video_mode := mode\<rparr>;
            s2 = (if mode = ''none'' then s1\<lparr>latest_frame := None\<rparr> else s1)
        in emit (Video_mode_changed mode) s2
      else s)"

section \<open>Text input\<close>

text \<open>
  \<^verbatim>\<open>
  async def process_text_input_queue(self):
      while self.is_running:
          text = await self.text_input_queue.get()
          if text is None:
              self.text_input_queue.task_done(); break
          if self.session:
              for q in [self.response_queue_tts, self.audio_in_queue_player]:
                  while not q.empty(): q.get_nowait()
              await self.session.send_client_content(
                  turns=[{"role": "user", "parts": [{"text": text or "."}]}])
          self.text_input_queue.task_done()
  \<close>
  \<open>drain\<close> is the inner \<open>while not q.empty(): q.get_nowait()\<close>: it removes the items
  one at a time until none is left.
\<close>

fun drain :: "'a list \<Rightarrow> 'a list" where
  "drain [] = []"
| "drain (x # q) = drain q"

definition purge_speech_queues :: "'w core \<Rightarrow> 'w core" where
  "purge_speech_queues s =
     s\<lparr>response_queue_tts := drain (response_queue_tts s),
       audio_in_queue_player := drain (audio_in_queue_player s)\<rparr>"

definition user_turn :: "string \<Rightarrow> session_call" where
  "user_turn text = Send_client_content [(''user'', [if text = [] then ''.'' else text])]"

definition process_text_item :: "string \<Rightarrow> 'w core \<Rightarrow> 'w core" where
  "process_text_item text s =
     (if session s \<noteq> None then session_send (user_turn text) (purge_speech_queues s)
      else s)"

text \<open>
  How a loop over a queue stops in the model: the task has left its loop, it is
  suspended in \<open>get\<close> on an empty queue, or an exception has left the coroutine.
\<close>

datatype loop_end = Exited | Awaiting | Raised exn

function process_text_input_queue :: "'w core \<Rightarrow> loop_end \<times> 'w core" where
  "process_text_input_queue s =
     (if \<not> is_running s then (Exited, s)
      else case text_input_queue s of
        [] \<Rightarrow> (Awaiting, s)
      | None # rest \<Rightarrow> (Exited, s\<lparr>text_input_queue := rest\<rparr>)
      | Some text # rest \<Rightarrow>
          process_text_input_queue (process_text_item text (s\<lparr>text_input_queue := rest\<rparr>)))"
  by pat_completeness auto
termination
  by (relation "measure (\<lambda>s. length (text_input_queue s))")
    (auto simp: process_text_item_def session_send_def purge_speech_queues_def)

declare process_text_input_queue.simps [simp del]

section \<open>Outbound queue and its consumer\<close>

text \<open>
  The two producers put dictionaries into \<open>out_queue_gemini\<close> (capacity 20):
  \<^verbatim>\<open>
  await self.out_queue_gemini.put({"data": data, "mime_type": "audio/pcm"})      # listen_audio
  gemini_data = {"mime_type": "image/jpeg",
                 "data": base64.b64encode(image_io.getvalue()).decode()}         # send_frames_to_gemini
  await self.out_queue_gemini.put(gemini_data)
  \<close>
  and one consumer forwards them:
  \<^verbatim>\<open>
  async def send_realtime(self):
      while self.is_running:
          msg = await self.out_queue_gemini.get()
          if not self.is_running: break
          if isinstance(msg, dict) and msg.get("mime_type") == "audio/pcm":
              await self.session.send_realtime_input(
                  audio=types.Blob(data=msg["data"], mime_type="audio/pcm"))
          elif isinstance(msg, dict) and msg.get("mime_type") == "image/jpeg":
              await self.session.send_realtime_input(
                  video=types.Blob(data=base64.b64decode(msg["data"]), mime_type="image/jpeg"))
          self.out_queue_gemini.task_done()
  \<close>
  \<open>base64.b64decode\<close> belongs to the standard library; it is a parameter \<open>dec\<close> of the
  model, from the text to the decoded bytes or the exception it raises.
\<close>

datatype outbound_item = Audio bytes | Image string

fun item_msg :: "outbound_item \<Rightarrow> pydict" where
  "item_msg (Audio d) = [(''data'', PBytes d), (''mime_type'', PStr ''audio/pcm'')]"
| "item_msg (Image b64) = [(''mime_type'', PStr ''image/jpeg''), (''data'', PStr b64)]"

definition maxsize :: nat where
  "maxsize = 20"

text \<open>A call on \<open>self.session\<close>; on \<open>None\<close> the attribute access raises.\<close>

definition session_call_on :: "session_call \<Rightarrow> 'w core \<Rightarrow> exn + 'w core" where
  "session_call_on c s =
     (case session s of
        None \<Rightarrow> Inl (Exn ''AttributeError'' ''NoneType object has no attribute'')
      | Some log \<Rightarrow> Inr (s\<lparr>session := Some (log @ [c])\<rparr>))"

fun b64decode_val :: "(string \<Rightarrow> exn + bytes) \<Rightarrow> pyval \<Rightarrow> exn + bytes" where
  "b64decode_val dec (PStr t) = dec t"
| "b64decode_val dec (PBytes b) = dec (map (\<lambda>w. char_of (unat w)) b)"
| "b64decode_val dec v = Inl (Exn ''TypeError'' ''argument should be a bytes-like object or ASCII string'')"

definition subscript :: "pydict \<Rightarrow> string \<Rightarrow> exn + pyval" where
  "subscript d k = (case map_of d k of None \<Rightarrow> Inl (Exn ''KeyError'' k) | Some v \<Rightarrow> Inr v)"

definition forward_realtime ::
  "(string \<Rightarrow> exn + bytes) \<Rightarrow> pydict \<Rightarrow> 'w core \<Rightarrow> exn + 'w core" where
  "forward_realtime dec msg s =
     (if map_of msg ''mime_type'' = Some (PStr ''audio/pcm'') then
        (case subscript msg ''data'' of
           Inl e \<Rightarrow> Inl e
         | Inr d \<Rightarrow> session_call_on (Send_realtime_audio d ''audio/pcm'') s)
      else if map_of msg ''mime_type'' = Some (PStr ''image/jpeg'') then
        (case subscript msg ''data'' of
           Inl e \<Rightarrow> Inl e
         | Inr d \<Rightarrow>
             (case b64decode_val dec d of
                Inl e \<Rightarrow> Inl e
              | Inr b \<Rightarrow> session_call_on (Send_realtime_video b ''image/jpeg'') s))
      else Inr s)"

text \<open>
  The loop, run until the consumer leaves it or is suspended in \<open>get\<close>. The flag is read
  at the head of the loop and again after \<open>get\<close> has returned.
\<close>

function send_realtime :: "(string \<Rightarrow> exn + bytes) \<Rightarrow> 'w core \<Rightarrow> loop_end \<times> 'w core" where
  "send_realtime dec s =
     (if \<not> is_running s then (Exited, s)
      else case out_queue_gemini s of
        [] \<Rightarrow> (Awaiting, s)
      | msg # rest \<Rightarrow>
          let s1 = s\<lparr>out_queue_gemini := rest\<rparr> in
          if \<not> is_running s1 then (Exited, s1)
          else (case forward_realtime dec msg s1 of
                  Inl e \<Rightarrow> (Raised e, s1)
                | Inr s2 \<Rightarrow> send_realtime dec s2))"
  by pat_completeness auto
termination
  by (relation "measure (\<lambda>(dec, s). length (out_queue_gemini s))")
    (auto simp: forward_realtime_def session_call_on_def Let_def
          split: if_splits sum.splits option.splits)

declare send_realtime.simps [simp del]

text \<open>
  Producers and consumer interleave. An event is a producer completing \<open>put\<close>, possible
  only while the queue holds fewer than 20 items (otherwise the producer stays
  suspended), or the consumer completing one iteration of its loop, possible only when
  the queue is not empty.
\<close>

datatype mux_event = Put outbound_item | Consume

datatype 'a progress = Done 'a | Suspended | Failed exn

fun mux_step :: "(string \<Rightarrow> exn + bytes) \<Rightarrow> 'w core \<Rightarrow> mux_event \<Rightarrow> 'w core progress" where
  "mux_step dec s (Put it) =
     (if length (out_queue_gemini s) < maxsize
      then Done (s\<lparr>out_queue_gemini := out_queue_gemini s @ [item_msg it]\<rparr>)
      else Suspended)"
| "mux_step dec s Consume =
     (if \<not> is_running s then Suspended
      else case out_queue_gemini s of
        [] \<Rightarrow> Suspended
      | msg # rest \<Rightarrow>
          (case forward_realtime dec msg (s\<lparr>out_queue_gemini := rest\<rparr>) of
             Inl e \<Rightarrow> Failed e
           | Inr s2 \<Rightarrow> Done s2))"

fun mux_run :: "(string \<Rightarrow> exn + bytes) \<Rightarrow> mux_event list \<Rightarrow> 'w core \<Rightarrow> 'w core progress" where
  "mux_run dec [] s = Done s"
| "mux_run dec (ev # evs) s =
     (case mux_step dec s ev of
        Done s1 \<Rightarrow> mux_run dec evs s1
      | Suspended \<Rightarrow> Suspended
      | Failed e \<Rightarrow> Failed e)"

fun puts_of :: "mux_event list \<Rightarrow> outbound_item list" where
  "puts_of [] = []"
| "puts_of (Put it # evs) = it # puts_of evs"
| "puts_of (Consume # evs) = puts_of evs"

text \<open>
  What the session is to receive for an item, in the words of the specification: audio
  bytes through the audio primitive tagged as PCM, image bytes through the video primitive
  tagged as JPEG, decoded from base64.
\<close>

fun realtime_call :: "(string \<Rightarrow> exn + bytes) \<Rightarrow> outbound_item \<Rightarrow> session_call" where
  "realtime_call dec (Audio d) = Send_realtime_audio (PBytes d) ''audio/pcm''"
| "realtime_call dec (Image b64) =
     Send_realtime_video (case dec b64 of Inr b \<Rightarrow> b | Inl e \<Rightarrow> []) ''image/jpeg''"

definition decodable :: "(string \<Rightarrow> exn + bytes) \<Rightarrow> outbound_item \<Rightarrow> bool" where
  "decodable dec it = (case it of Audio d \<Rightarrow> True | Image b64 \<Rightarrow> (case dec b64 of Inr b \<Rightarrow> True | Inl e \<Rightarrow> False))"

text \<open>
  A decoder for the examples below: it knows the encoding of the one-byte text "A" and
  rejects every other text.
\<close>

definition sample_b64decode :: "string \<Rightarrow> exn + bytes" where
  "sample_b64decode t =
     (if t = ''QQ=='' then Inr [65] else Inl (Exn ''binascii.Error'' ''Incorrect padding''))"

section \<open>Capture loop\<close>

text \<open>
  \<^verbatim>\<open>
  async def stream_video_to_gui(self):
      video_capture = None
      while self.is_running:
          frame = None
          try:
              if self.video_mode == "camera":
                  if video_capture is None: video_capture = await asyncio.to_thread(cv2.VideoCapture, 0)
                  if video_capture.isOpened():
                      ret, frame = await asyncio.to_thread(video_capture.read)
                      if not ret:
                          await asyncio.sleep(0.01)
                          continue
              elif self.video_mode == "screen":
                  if video_capture is not None:
                      await asyncio.to_thread(video_capture.release)
                      video_capture = None
                  screenshot = await asyncio.to_thread(ImageGrab.grab)
                  frame = cv2.cvtColor(np.array(screenshot), cv2.COLOR_RGB2BGR)
              else:
                  if video_capture is not None:
                      await asyncio.to_thread(video_capture.release)
                      video_capture = None
                  await asyncio.sleep(0.1)
                  continue
              if frame is not None:
                  self.latest_frame = frame
                  ...
                  self.frame_received.emit(qt_image.copy())
              else: self.frame_received.emit(QImage())
              await asyncio.sleep(0.033)
          except Exception as e:
              print(f">>> [ERROR] Video streaming error: {e}")
              if video_capture is not None:
                  await asyncio.to_thread(video_capture.release)
                  video_capture = None
              await asyncio.sleep(1)
      if video_capture is not None: await asyncio.to_thread(video_capture.release)
  \<close>
  What the devices answer in one iteration is given by a record: whether opening the
  camera raises, whether the capture reports to be opened, what \<open>read\<close> returns (an
  exception, \<open>(False, None)\<close> as \<open>None\<close>, or \<open>(True, frame)\<close>), and what grabbing and
  converting the screen returns. Releasing the capture is taken not to raise. The mode is
  read at the head of the iteration.
\<close>

record video_io =
  open_result :: "exn option"
  is_opened :: bool
  read_result :: "exn + frame option"
  grab_result :: "exn + frame"

definition release_capture :: "'w core \<Rightarrow> 'w core" where
  "release_capture s =
     (if video_capture s \<noteq> None
      then s\<lparr>video_capture := None, devices := devices s @ [Released]\<rparr>
      else s)"

definition publish_frame :: "frame option \<Rightarrow> 'w core \<Rightarrow> 'w core" where
  "publish_frame fr s =
     (case fr of
        Some f \<Rightarrow> emit (Frame_received (Some f)) (s\<lparr>latest_frame := Some f\<rparr>)
      | None \<Rightarrow> emit (Frame_received None) s)"

text \<open>The body of \<open>try\<close>: the state it reaches and the exception that left it, if any.\<close>

definition capture_body :: "video_io \<Rightarrow> 'w core \<Rightarrow> exn option \<times> 'w core" where
  "capture_body io s =
     (if video_mode s = ''camera'' then
        (case (if video_capture s = None
               then (case open_result io of
                       Some e \<Rightarrow> Inl e
                     | None \<Rightarrow> Inr (s\<lparr>video_capture := Some (VideoCapture 0),
                                     devices := devices s @ [Opened]\<rparr>))
               else Inr s) of
           Inl e \<Rightarrow> (Some e, s)
         | Inr s1 \<Rightarrow>
             if is_opened io then
               (let s2 = s1\<lparr>devices := devices s1 @ [Read_frame]\<rparr> in
                case read_result io of
                  Inl e \<Rightarrow> (Some e, s2)
                | Inr None \<Rightarrow> (None, s2)
                | Inr (Some f) \<Rightarrow> (None, publish_frame (Some f) s2))
             else (None, publish_frame None s1))
      else if video_mode s = ''screen'' then
        (let s1 = release_capture s;
             s2 = s1\<lparr>devices := devices s1 @ [Grabbed]\<rparr> in
         case grab_result io of
           Inl e \<Rightarrow> (Some e, s2)
         | Inr f \<Rightarrow> (None, publish_frame (Some f) s2))
      else (None, release_capture s))"

definition stream_video_iteration :: "video_io \<Rightarrow> 'w core \<Rightarrow> 'w core" where
  "stream_video_iteration io s =
     (case capture_body io s of
        (None, s1) \<Rightarrow> s1
      | (Some e, s1) \<Rightarrow> release_capture s1)"

text \<open>The statement after the loop: the device is released, the local is left as it is.\<close>

definition stream_video_finish :: "'w core \<Rightarrow> 'w core" where
  "stream_video_finish s =
     (if video_capture s \<noteq> None then s\<lparr>devices := devices s @ [Released]\<rparr> else s)"

text \<open>
  The mode switch runs between iterations of the capture loop; an iteration happens
  only while the running flag is set.
\<close>

datatype video_event = Set_mode string | Iteration video_io

fun video_step :: "'w core \<Rightarrow> video_event \<Rightarrow> 'w core" where
  "video_step s (Set_mode m) = set_video_mode m s"
| "video_step s (Iteration io) = (if is_running s then stream_video_iteration io s else s)"

definition run_video :: "video_event list \<Rightarrow> 'w core \<Rightarrow> 'w core" where
  "run_video evs s = foldl video_step s evs"

text \<open>
  The discipline of the devices, read off a list of device events from a state in which
  the camera is held (\<open>True\<close>) or not: the camera is opened only when it is not held,
  read and released only when it is held, and the screen is grabbed only when the camera
  is not held. The result is whether the camera is held at the end, or \<open>None\<close> when an
  event breaks the discipline.
\<close>

fun holds_after :: "bool \<Rightarrow> device_event list \<Rightarrow> bool option" where
  "holds_after h [] = Some h"
| "holds_after h (Opened # evs) = (if h then None else holds_after True evs)"
| "holds_after h (Read_frame # evs) = (if h then holds_after h evs else None)"
| "holds_after h (Released # evs) = (if h then holds_after False evs else None)"
| "holds_after h (Grabbed # evs) = (if h then None else holds_after h evs)"

definition camera_ok :: video_io where
  "camera_ok = \<lparr>open_result = None, is_opened = True, read_result = Inr (Some [7]),
                grab_result = Inr [9]\<rparr>"

section \<open>Text-to-speech bridge\<close>



















section \<open>Strings and values as Python treats them\<close>

text \<open>
  The string methods the tools use. Characters are single bytes here, so case mapping
  and white space are those of ASCII.
\<close>

definition sq :: char where
  "sq = CHR 0x27"

definition backslash :: char where
  "backslash = CHR 0x5C"

definition newline :: char where
  "newline = CHR 0x0A"

definition quoted :: "string \<Rightarrow> string" where
  "quoted t = sq # t @ [sq]"

definition lower_char :: "char \<Rightarrow> char" where
  "lower_char c =
     (case map_of (zip ''ABCDEFGHIJKLMNOPQRSTUVWXYZ'' ''abcdefghijklmnopqrstuvwxyz'') c of
        Some d \<Rightarrow> d
      | None \<Rightarrow> c)"

definition upper_char :: "char \<Rightarrow> char" where
  "upper_char c =
     (case map_of (zip ''abcdefghijklmnopqrstuvwxyz'' ''ABCDEFGHIJKLMNOPQRSTUVWXYZ'') c of
        Some d \<Rightarrow> d
      | None \<Rightarrow> c)"

definition lower :: "string \<Rightarrow> string" where
  "lower t = map lower_char t"

definition upper :: "string \<Rightarrow> string" where
  "upper t = map upper_char t"

definition is_space :: "char \<Rightarrow> bool" where
  "is_space c =
     (c \<in> set [CHR 0x09, CHR 0x0A, CHR 0x0B, CHR 0x0C, CHR 0x0D,
                CHR 0x1C, CHR 0x1D, CHR 0x1E, CHR 0x1F, CHR 0x20])"

definition strip :: "string \<Rightarrow> string" where
  "strip t = rev (dropWhile is_space (rev (dropWhile is_space t)))"

definition startswith :: "string \<Rightarrow> string \<Rightarrow> bool" where
  "startswith t p = (take (length p) t = p)"

definition endswith :: "string \<Rightarrow> string \<Rightarrow> bool" where
  "endswith t p = (length p \<le> length t \<and> drop (length t - length p) t = p)"

text \<open>\<open>contains p t\<close> is Python's \<open>p in t\<close> on strings.\<close>

fun contains :: "string \<Rightarrow> string \<Rightarrow> bool" where
  "contains p [] = (p = [])"
| "contains p (c # t) = (startswith (c # t) p \<or> contains p t)"

definition replace_char :: "char \<Rightarrow> string \<Rightarrow> string \<Rightarrow> string" where
  "replace_char a r t = concat (map (\<lambda>c. if c = a then r else [c]) t)"

text \<open>
  \<open>t.split(sep)\<close> for a separator that is not empty: the pieces between the occurrences
  of the separator, found from the left. \<open>cur\<close> is the piece being read, reversed.
\<close>

function split_from :: "string \<Rightarrow> string \<Rightarrow> string \<Rightarrow> string list" where
  "split_from sep cur [] = [rev cur]"
| "split_from sep cur (c # t) =
     (if sep \<noteq> [] \<and> startswith (c # t) sep
      then rev cur # split_from sep [] (drop (length sep) (c # t))
      else split_from sep (c # cur) t)"
  by pat_completeness auto
termination
  by (relation "measure (\<lambda>(sep, cur, t). length t)") auto

definition split :: "string \<Rightarrow> string \<Rightarrow> string list" where
  "split t sep = split_from sep [] t"

text \<open>
  \<open>t.splitlines()\<close>: lines end at line feed, carriage return (with a line feed after
  it, if any), vertical tab, form feed and the three separators 0x1C to 0x1E; an empty
  last line is not a line.
\<close>

definition is_linebreak :: "char \<Rightarrow> bool" where
  "is_linebreak c = (c \<in> set [CHR 0x0A, CHR 0x0B, CHR 0x0C, CHR 0x0D, CHR 0x1C, CHR 0x1D, CHR 0x1E])"

fun splitlines_from :: "string \<Rightarrow> string \<Rightarrow> string list" where
  "splitlines_from cur [] = (if cur = [] then [] else [rev cur])"
| "splitlines_from cur [c] =
     (if is_linebreak c then [rev cur] else [rev (c # cur)])"
| "splitlines_from cur (c # d # t) =
     (if c = CHR 0x0D \<and> d = CHR 0x0A then rev cur # splitlines_from [] t
      else if is_linebreak c then rev cur # splitlines_from [] (d # t)
      else splitlines_from (c # cur) (d # t))"

definition splitlines :: "string \<Rightarrow> string list" where
  "splitlines t = splitlines_from [] t"

text \<open>\<open>html.escape\<close> with its default \<open>quote=True\<close>.\<close>

definition escape_char :: "char \<Rightarrow> string" where
  "escape_char c =
     (if c = CHR ''&'' then ''&amp;''
      else if c = CHR ''<'' then ''&lt;''
      else if c = CHR ''>'' then ''&gt;''
      else if c = CHR 0x22 then ''&quot;''
      else if c = sq then ''&#x27;''
      else [c])"

definition escape :: "string \<Rightarrow> string" where
  "escape t = concat (map escape_char t)"

text \<open>Decimal digits of a number, for \<open>str\<close> of an \<open>int\<close> in an f-string.\<close>

function digits :: "nat \<Rightarrow> string" where
  "digits n =
     (if n < 10 then [''0123456789'' ! n]
      else digits (n div 10) @ [''0123456789'' ! (n mod 10)])"
  by pat_completeness auto
termination
  by (relation "measure (\<lambda>n. n)") auto

declare digits.simps [simp del]

definition str_int :: "int \<Rightarrow> string" where
  "str_int i = (if i < 0 then CHR ''-'' # digits (nat (- i)) else digits (nat i))"

text \<open>
  Truth value of a value, and the text an f-string puts for it. Inside a list the
  elements are shown by \<open>repr\<close>; the model writes a string element between single
  quotes without the escapes \<open>repr\<close> would add, and bytes likewise.
\<close>

fun truthy :: "pyval \<Rightarrow> bool" where
  "truthy PNone = False"
| "truthy (PBool b) = b"
| "truthy (PInt i) = (i \<noteq> 0)"
| "truthy (PStr t) = (t \<noteq> [])"
| "truthy (PBytes b) = (b \<noteq> [])"
| "truthy (PList vs) = (vs \<noteq> [])"

fun join_with :: "string \<Rightarrow> string list \<Rightarrow> string" where
  "join_with sep [] = []"
| "join_with sep [t] = t"
| "join_with sep (t # u # ts) = t @ sep @ join_with sep (u # ts)"

fun py_str :: "pyval \<Rightarrow> string" and py_repr :: "pyval \<Rightarrow> string" where
  "py_str (PStr t) = t"
| "py_str PNone = ''None''"
| "py_str (PBool b) = (if b then ''True'' else ''False'')"
| "py_str (PInt i) = str_int i"
| "py_str (PBytes b) = CHR ''b'' # quoted (map (\<lambda>w. char_of (unat w)) b)"
| "py_str (PList vs) = ''['' @ join_with '', '' (map py_repr vs) @ '']''"
| "py_repr (PStr t) = quoted t"
| "py_repr PNone = ''None''"
| "py_repr (PBool b) = (if b then ''True'' else ''False'')"
| "py_repr (PInt i) = str_int i"
| "py_repr (PBytes b) = CHR ''b'' # quoted (map (\<lambda>w. char_of (unat w)) b)"
| "py_repr (PList vs) = ''['' @ join_with '', '' (map py_repr vs) @ '']''"

text \<open>
  \<open>str_arg v\<close> is the string of an argument that passes the guard the helpers start
  with, \<open>if not v or not isinstance(v, str): return error\<close>: a string that is not empty.
\<close>

fun str_arg :: "pyval \<Rightarrow> string option" where
  "str_arg (PStr t) = (if t = [] then None else Some t)"
| "str_arg v = None"

text \<open>\<open>d.get(k)\<close> and \<open>d.get(k, default)\<close>.\<close>

definition get :: "pydict \<Rightarrow> string \<Rightarrow> pyval" where
  "get d k = (case map_of d k of None \<Rightarrow> PNone | Some v \<Rightarrow> v)"

definition get_or :: "pydict \<Rightarrow> string \<Rightarrow> pyval \<Rightarrow> pyval" where
  "get_or d k dflt = (case map_of d k of None \<Rightarrow> dflt | Some v \<Rightarrow> v)"

text \<open>
  Methods and functions of strings applied to a value of any type: on a value that is
  not a string the attribute is missing, or the argument has the wrong type.
\<close>

definition attribute_error :: "string \<Rightarrow> exn" where
  "attribute_error name = Exn ''AttributeError'' (''object has no attribute '' @ quoted name)"

definition type_error :: "string \<Rightarrow> exn" where
  "type_error what = Exn ''TypeError'' what"

fun py_escape :: "pyval \<Rightarrow> exn + string" where
  "py_escape (PStr t) = Inr (escape t)"
| "py_escape v = Inl (attribute_error ''replace'')"
section \<open>The operating system the tools act on\<close>

text \<open>
  The tools call the file system, the process launcher and the browser. What those do is
  not part of the program: the model takes it as a record of functions over a state of
  the world \<open>'w\<close>. A query reads the world; an action returns the world it leaves and the
  exception it raised, if any. A directory tree is what \<open>os.walk\<close> goes through: the
  name of a directory, its files and its subdirectories.
\<close>

datatype dirtree = Dir (dir_name: string) (dir_files: "string list") (dir_subs: "dirtree list")

datatype command = Shell string | Program string | Argv "string list"

record 'w os =
  os_platform :: string
  os_home :: string
  os_environ :: "string \<Rightarrow> string option"
  os_path_join :: "string \<Rightarrow> string \<Rightarrow> string"
  os_path_basename :: "string \<Rightarrow> string"
  os_path_dirname :: "string \<Rightarrow> string"
  os_path_abspath :: "'w \<Rightarrow> string \<Rightarrow> string"
  os_path_exists :: "'w \<Rightarrow> string \<Rightarrow> bool"
  os_fd_exists :: "'w \<Rightarrow> int \<Rightarrow> bool"
  os_path_isdir :: "'w \<Rightarrow> string \<Rightarrow> bool"
  os_path_isfile :: "'w \<Rightarrow> string \<Rightarrow> bool"
  os_tree :: "'w \<Rightarrow> string \<Rightarrow> dirtree"
  os_listdir :: "'w \<Rightarrow> string \<Rightarrow> exn + string list"
  os_read_text :: "'w \<Rightarrow> string \<Rightarrow> exn + string"
  os_makedirs :: "string \<Rightarrow> bool \<Rightarrow> 'w \<Rightarrow> exn option \<times> 'w"
  os_write_text :: "string \<Rightarrow> bool \<Rightarrow> pyval \<Rightarrow> 'w \<Rightarrow> exn option \<times> 'w"
  os_move :: "string \<Rightarrow> string \<Rightarrow> 'w \<Rightarrow> exn option \<times> 'w"
  os_popen :: "command \<Rightarrow> 'w \<Rightarrow> exn option \<times> 'w"
  os_run :: "command \<Rightarrow> 'w \<Rightarrow> (exn + int) \<times> 'w"
  os_browser_open :: "string \<Rightarrow> 'w \<Rightarrow> exn option \<times> 'w"
  os_startfile :: "string \<Rightarrow> 'w \<Rightarrow> exn option \<times> 'w"

text \<open>
  \<open>try: body except Exception as e: return handler(e)\<close>, for a body that returns a
  value or raises, in a world it may have changed by then.
\<close>

definition try_except ::
  "('w \<Rightarrow> (exn + 'a) \<times> 'w) \<Rightarrow> (exn \<Rightarrow> 'a) \<Rightarrow> 'w \<Rightarrow> (exn + 'a) \<times> 'w" where
  "try_except body handler w =
     (case body w of
        (Inl e, w1) \<Rightarrow> (Inr (handler e), w1)
      | (Inr v, w1) \<Rightarrow> (Inr v, w1))"

definition status_msg :: "string \<Rightarrow> string \<Rightarrow> pydict" where
  "status_msg st m = [(''status'', PStr st), (''message'', PStr m)]"

section \<open>Tool helpers\<close>

text \<open>
  The helpers are the methods \<open>_create_folder\<close>, \<open>_create_file\<close>, ... of \<open>AI_Core\<close>; the
  model drops the leading underscore. Their \<open>print\<close> statements are left out.
  \<^verbatim>\<open>
  def _create_folder(self, folder_path):
      try:
          if not folder_path or not isinstance(folder_path, str): return {"status": "error", "message": "Invalid folder path provided."}
          if os.path.exists(folder_path): return {"status": "skipped", "message": f"The folder '{folder_path}' already exists."}
          os.makedirs(folder_path)
          return {"status": "success", "message": f"Successfully created the folder at '{folder_path}'."}
      except Exception as e: return {"status": "error", "message": f"An error occurred: {str(e)}"}
  \<close>
\<close>

definition create_folder_body :: "'w os \<Rightarrow> pyval \<Rightarrow> 'w \<Rightarrow> (exn + pydict) \<times> 'w" where
  "create_folder_body os folder_path w =
     (case str_arg folder_path of
        None \<Rightarrow> (Inr (status_msg ''error'' ''Invalid folder path provided.''), w)
      | Some p \<Rightarrow>
          if os_path_exists os w p
          then (Inr (status_msg ''skipped'' (''The folder '' @ quoted p @ '' already exists.'')), w)
          else (case os_makedirs os p False w of
                  (Some e, w1) \<Rightarrow> (Inl e, w1)
                | (None, w1) \<Rightarrow>
                    (Inr (status_msg ''success''
                       (''Successfully created the folder at '' @ quoted p @ ''.'')), w1)))"

definition create_folder :: "'w os \<Rightarrow> pyval \<Rightarrow> 'w \<Rightarrow> (exn + pydict) \<times> 'w" where
  "create_folder os folder_path =
     try_except (create_folder_body os folder_path)
       (\<lambda>e. status_msg ''error'' (''An error occurred: '' @ exn_str e))"

text \<open>
  \<^verbatim>\<open>
  def _create_file(self, file_path, content):
      try:
          if not file_path or not isinstance(file_path, str): return {"status": "error", "message": "Invalid file path provided."}
          if os.path.exists(file_path): return {"status": "skipped", "message": f"The file '{file_path}' already exists."}
          with open(file_path, 'w') as f: f.write(content)
          return {"status": "success", "message": f"Successfully created the file at '{file_path}'."}
      except Exception as e: return {"status": "error", "message": f"An error occurred while creating the file: {str(e)}"}
  \<close>
  \<open>os_write_text p append content\<close> is opening \<open>p\<close> (for appending or not) and writing
  \<open>content\<close>, a value of any type.
\<close>

definition create_file_body :: "'w os \<Rightarrow> pyval \<Rightarrow> pyval \<Rightarrow> 'w \<Rightarrow> (exn + pydict) \<times> 'w" where
  "create_file_body os file_path content w =
     (case str_arg file_path of
        None \<Rightarrow> (Inr (status_msg ''error'' ''Invalid file path provided.''), w)
      | Some p \<Rightarrow>
          if os_path_exists os w p
          then (Inr (status_msg ''skipped'' (''The file '' @ quoted p @ '' already exists.'')), w)
          else (case os_write_text os p False content w of
                  (Some e, w1) \<Rightarrow> (Inl e, w1)
                | (None, w1) \<Rightarrow>
                    (Inr (status_msg ''success''
                       (''Successfully created the file at '' @ quoted p @ ''.'')), w1)))"

definition create_file :: "'w os \<Rightarrow> pyval \<Rightarrow> pyval \<Rightarrow> 'w \<Rightarrow> (exn + pydict) \<times> 'w" where
  "create_file os file_path content =
     try_except (create_file_body os file_path content)
       (\<lambda>e. status_msg ''error'' (''An error occurred while creating the file: '' @ exn_str e))"

text \<open>
  \<^verbatim>\<open>
  def _edit_file(self, file_path, content):
      try:
          if not file_path or not isinstance(file_path, str): return {"status": "error", "message": "Invalid file path provided."}
          if not os.path.exists(file_path): return {"status": "error", "message": f"The file '{file_path}' does not exist. Please create it first."}
          with open(file_path, 'a') as f: f.write(f"\n{content}")
          return {"status": "success", "message": f"Successfully appended content to the file at '{file_path}'."}
      except Exception as e: return {"status": "error", "message": f"An error occurred while editing the file: {str(e)}"}
  \<close>
\<close>

definition edit_file_body :: "'w os \<Rightarrow> pyval \<Rightarrow> pyval \<Rightarrow> 'w \<Rightarrow> (exn + pydict) \<times> 'w" where
  "edit_file_body os file_path content w =
     (case str_arg file_path of
        None \<Rightarrow> (Inr (status_msg ''error'' ''Invalid file path provided.''), w)
      | Some p \<Rightarrow>
          if \<not> os_path_exists os w p
          then (Inr (status_msg ''error''
                  (''The file '' @ quoted p @ '' does not exist. Please create it first.'')), w)
          else (case os_write_text os p True (PStr (newline # py_str content)) w of
                  (Some e, w1) \<Rightarrow> (Inl e, w1)
                | (None, w1) \<Rightarrow>
                    (Inr (status_msg ''success''
                       (''Successfully appended content to the file at '' @ quoted p @ ''.'')), w1)))"

definition edit_file :: "'w os \<Rightarrow> pyval \<Rightarrow> pyval \<Rightarrow> 'w \<Rightarrow> (exn + pydict) \<times> 'w" where
  "edit_file os file_path content =
     try_except (edit_file_body os file_path content)
       (\<lambda>e. status_msg ''error'' (''An error occurred while editing the file: '' @ exn_str e))"

text \<open>
  \<^verbatim>\<open>
  def _list_files(self, directory_path):
      try:
          path_to_list = directory_path if directory_path else '.'
          if not isinstance(path_to_list, str): return {"status": "error", "message": "Invalid directory path provided."}
          if not os.path.isdir(path_to_list): return {"status": "error", "message": f"The path '{path_to_list}' is not a valid directory."}
          files = os.listdir(path_to_list)
          return {"status": "success", "message": f"Found {len(files)} items in '{path_to_list}'.", "files": files, "directory_path": path_to_list}
      except Exception as e: return {"status": "error", "message": f"An error occurred: {str(e)}"}
  \<close>
\<close>

definition list_files_body :: "'w os \<Rightarrow> pyval \<Rightarrow> 'w \<Rightarrow> (exn + pydict) \<times> 'w" where
  "list_files_body os directory_path w =
     (case (if truthy directory_path then directory_path else PStr ''.'') of
        PStr p \<Rightarrow>
          if \<not> os_path_isdir os w p
          then (Inr (status_msg ''error''
                  (''The path '' @ quoted p @ '' is not a valid directory.'')), w)
          else (case os_listdir os w p of
                  Inl e \<Rightarrow> (Inl e, w)
                | Inr files \<Rightarrow>
                    (Inr (status_msg ''success''
                            (''Found '' @ str_int (int (length files)) @ '' items in ''
                               @ quoted p @ ''.'')
                          @ [(''files'', PList (map PStr files)), (''directory_path'', PStr p)]), w))
      | v \<Rightarrow> (Inr (status_msg ''error'' ''Invalid directory path provided.''), w))"

definition list_files :: "'w os \<Rightarrow> pyval \<Rightarrow> 'w \<Rightarrow> (exn + pydict) \<times> 'w" where
  "list_files os directory_path =
     try_except (list_files_body os directory_path)
       (\<lambda>e. status_msg ''error'' (''An error occurred: '' @ exn_str e))"

text \<open>
  \<^verbatim>\<open>
  def _read_file(self, file_path):
      try:
          if not file_path or not isinstance(file_path, str): return {"status": "error", "message": "Invalid file path provided."}
          if not os.path.exists(file_path): return {"status": "error", "message": f"The file '{file_path}' does not exist."}
          if not os.path.isfile(file_path): return {"status": "error", "message": f"The path '{file_path}' is not a file."}
          with open(file_path, 'r') as f: content = f.read()
          return {"status": "success", "message": f"Successfully read the file '{file_path}'.", "content": content}
      except Exception as e: return {"status": "error", "message": f"An error occurred while reading the file: {str(e)}"}
  \<close>
\<close>

definition read_file_body :: "'w os \<Rightarrow> pyval \<Rightarrow> 'w \<Rightarrow> (exn + pydict) \<times> 'w" where
  "read_file_body os file_path w =
     (case str_arg file_path of
        None \<Rightarrow> (Inr (status_msg ''error'' ''Invalid file path provided.''), w)
      | Some p \<Rightarrow>
          if \<not> os_path_exists os w p
          then (Inr (status_msg ''error'' (''The file '' @ quoted p @ '' does not exist.'')), w)
          else if \<not> os_path_isfile os w p
          then (Inr (status_msg ''error'' (''The path '' @ quoted p @ '' is not a file.'')), w)
          else (case os_read_text os w p of
                  Inl e \<Rightarrow> (Inl e, w)
                | Inr content \<Rightarrow>
                    (Inr (status_msg ''success'' (''Successfully read the file '' @ quoted p @ ''.'')
                          @ [(''content'', PStr content)]), w)))"

definition read_file :: "'w os \<Rightarrow> pyval \<Rightarrow> 'w \<Rightarrow> (exn + pydict) \<times> 'w" where
  "read_file os file_path =
     try_except (read_file_body os file_path)
       (\<lambda>e. status_msg ''error'' (''An error occurred while reading the file: '' @ exn_str e))"

text \<open>
  \<^verbatim>\<open>
  def _move_file(self, source_path, destination_path):
      import shutil
      try:
          if not source_path or not isinstance(source_path, str):
              return {"status": "error", "message": "Invalid source path provided."}
          if not destination_path or not isinstance(destination_path, str):
              return {"status": "error", "message": "Invalid destination path provided."}
          if not os.path.exists(source_path):
              return {"status": "error", "message": f"Source '{source_path}' does not exist."}
          home = os.path.expanduser("~")
          shortcuts = {"desktop": os.path.join(home, "Desktop"), "downloads": ..., "documents": ...,
                       "videos": ..., "music": ..., "pictures": ...}
          dest_lower = destination_path.strip().lower()
          if dest_lower in shortcuts:
              destination_path = shortcuts[dest_lower]
          if os.path.isdir(destination_path):
              destination_path = os.path.join(destination_path, os.path.basename(source_path))
          os.makedirs(os.path.dirname(os.path.abspath(destination_path)), exist_ok=True)
          shutil.move(source_path, destination_path)
          return {"status": "success", "message": f"Moved to '{destination_path}'.", "destination": destination_path}
      except Exception as e:
          return {"status": "error", "message": f"Failed to move file: {str(e)}"}
  \<close>
\<close>

definition user_folders :: "string list" where
  "user_folders = [''Desktop'', ''Downloads'', ''Documents'', ''Videos'', ''Music'', ''Pictures'']"

definition shortcuts :: "'w os \<Rightarrow> (string \<times> string) list" where
  "shortcuts os = map (\<lambda>f. (lower f, os_path_join os (os_home os) f)) user_folders"

definition move_file_body :: "'w os \<Rightarrow> pyval \<Rightarrow> pyval \<Rightarrow> 'w \<Rightarrow> (exn + pydict) \<times> 'w" where
  "move_file_body os source_path destination_path w =
     (case str_arg source_path of
        None \<Rightarrow> (Inr (status_msg ''error'' ''Invalid source path provided.''), w)
      | Some src \<Rightarrow>
          (case str_arg destination_path of
             None \<Rightarrow> (Inr (status_msg ''error'' ''Invalid destination path provided.''), w)
           | Some dst \<Rightarrow>
               if \<not> os_path_exists os w src
               then (Inr (status_msg ''error'' (''Source '' @ quoted src @ '' does not exist.'')), w)
               else
                 let dst1 = (case map_of (shortcuts os) (lower (strip dst)) of
                               Some d \<Rightarrow> d | None \<Rightarrow> dst);
                     dst2 = (if os_path_isdir os w dst1
                             then os_path_join os dst1 (os_path_basename os src) else dst1)
                 in case os_makedirs os (os_path_dirname os (os_path_abspath os w dst2)) True w of
                      (Some e, w1) \<Rightarrow> (Inl e, w1)
                    | (None, w1) \<Rightarrow>
                        (case os_move os src dst2 w1 of
                           (Some e, w2) \<Rightarrow> (Inl e, w2)
                         | (None, w2) \<Rightarrow>
                             (Inr (status_msg ''success'' (''Moved to '' @ quoted dst2 @ ''.'')
                                   @ [(''destination'', PStr dst2)]), w2))))"

definition move_file :: "'w os \<Rightarrow> pyval \<Rightarrow> pyval \<Rightarrow> 'w \<Rightarrow> (exn + pydict) \<times> 'w" where
  "move_file os source_path destination_path =
     try_except (move_file_body os source_path destination_path)
       (\<lambda>e. status_msg ''error'' (''Failed to move file: '' @ exn_str e))"
text \<open>
  \<^verbatim>\<open>
  def _search_file_sync(self, filename):
      home = os.path.expanduser("~")
      search_roots = [os.path.join(home, "Desktop"), os.path.join(home, "Downloads"),
                      os.path.join(home, "Documents"), os.path.join(home, "Videos"),
                      os.path.join(home, "Music"), os.path.join(home, "Pictures"), home]
      matches = []
      for root_dir in search_roots:
          if not root_dir or not os.path.isdir(root_dir): continue
          for root, dirs, files in os.walk(root_dir):
              dirs[:] = [d for d in dirs if not d.startswith('.') and d not in
                          ['Windows', 'System32', 'SysWOW64', 'WinSxS', '$Recycle.Bin', 'ProgramData', 'node_modules']]
              for f in files:
                  if filename.lower() in f.lower():
                      matches.append(os.path.join(root, f))
              if len(matches) >= 5:
                  return matches
      return matches
  \<close>
  The walk goes top-down; pruning \<open>dirs\<close> keeps it out of the pruned subdirectories.
  The functions return the matches and whether the \<open>return\<close> inside the loops was
  taken.
\<close>

definition skipped_dirs :: "string list" where
  "skipped_dirs = [''Windows'', ''System32'', ''SysWOW64'', ''WinSxS'', ''$Recycle.Bin'',
                   ''ProgramData'', ''node_modules'']"

definition keep_dir :: "string \<Rightarrow> bool" where
  "keep_dir d = (\<not> startswith d ''.'' \<and> d \<notin> set skipped_dirs)"

fun search_walk ::
    "(string \<Rightarrow> string \<Rightarrow> string) \<Rightarrow> string \<Rightarrow> string \<Rightarrow> dirtree \<Rightarrow> string list
       \<Rightarrow> bool \<times> string list"
  and search_walks ::
    "(string \<Rightarrow> string \<Rightarrow> string) \<Rightarrow> string \<Rightarrow> string \<Rightarrow> dirtree list \<Rightarrow> string list
       \<Rightarrow> bool \<times> string list" where
  "search_walk join filename root (Dir n files subs) matches =
     (let matches1 = matches @ map (join root) (filter (\<lambda>f. contains (lower filename) (lower f)) files)
      in if length matches1 \<ge> 5 then (True, matches1)
         else search_walks join filename root subs matches1)"
| "search_walks join filename root [] matches = (False, matches)"
| "search_walks join filename root (t # ts) matches =
     (if keep_dir (dir_name t) then
        (case search_walk join filename (join root (dir_name t)) t matches of
           (True, matches1) \<Rightarrow> (True, matches1)
         | (False, matches1) \<Rightarrow> search_walks join filename root ts matches1)
      else search_walks join filename root ts matches)"

fun search_roots_from ::
  "'w os \<Rightarrow> 'w \<Rightarrow> string \<Rightarrow> string list \<Rightarrow> string list \<Rightarrow> string list" where
  "search_roots_from os w filename [] matches = matches"
| "search_roots_from os w filename (root_dir # roots) matches =
     (if root_dir = [] \<or> \<not> os_path_isdir os w root_dir
      then search_roots_from os w filename roots matches
      else (case search_walk (os_path_join os) filename root_dir (os_tree os w root_dir) matches of
              (True, matches1) \<Rightarrow> matches1
            | (False, matches1) \<Rightarrow> search_roots_from os w filename roots matches1))"

definition search_file_sync :: "'w os \<Rightarrow> string \<Rightarrow> 'w \<Rightarrow> string list" where
  "search_file_sync os filename w =
     search_roots_from os w filename
       (map (os_path_join os (os_home os)) user_folders @ [os_home os]) []"

text \<open>
  \<^verbatim>\<open>
  def _open_application(self, application_name):
      try:
          if not application_name or not isinstance(application_name, str):
              return {"status": "error", "message": "Invalid application name provided."}
          name_lower = application_name.lower().strip()
          if sys.platform == "win32":
              app_map = {"calculator": "calc.exe", ...}
              CONSOLE_APPS = {"cmd.exe", "powershell.exe", "pwsh.exe", "wt.exe", "git-bash.exe"}
              exe = app_map.get(name_lower)
              if exe:
                  if exe.endswith(":"):
                      subprocess.Popen(f"start {exe}", shell=True)
                      return {"status": "success", "message": f"Successfully launched '{application_name}'."}
                  if exe.lower() in CONSOLE_APPS:
                      subprocess.Popen(f'start "" "{exe}"', shell=True)
                      return {"status": "success", "message": f"Successfully launched '{application_name}'."}
                  try:
                      subprocess.Popen(exe, shell=False)
                      return {"status": "success", "message": f"Successfully launched '{application_name}'."}
                  except FileNotFoundError:
                      pass
                  search_dirs = [
                      os.environ.get("ProgramFiles", "C:\\Program Files"),
                      os.environ.get("ProgramFiles(x86)", "C:\\Program Files (x86)"),
                      os.environ.get("LocalAppData", ""),
                      os.path.join(os.environ.get("LocalAppData", ""), "Programs"),
                      os.path.join(os.environ.get("AppData", ""), "..\\Local\\Programs"),
                      os.path.join(os.environ.get("AppData", ""), "Local\\Programs"),
                  ]
                  for d in search_dirs:
                      if not d or not os.path.isdir(d): continue
                      for root, dirs, files in os.walk(d):
                          if exe.lower() in [f.lower() for f in files]:
                              full_path = os.path.join(root, exe)
                              subprocess.Popen(full_path, shell=False)
                              return {"status": "success", "message": f"Launched '{application_name}' from {full_path}."}
                  subprocess.Popen(f'start "" "{exe}"', shell=True)
                  return {"status": "success", "message": f"Attempted to launch '{application_name}'."}
              else:
                  subprocess.Popen(f'start "" "{application_name}"', shell=True)
                  return {"status": "success", "message": f"Attempted to launch '{application_name}'."}
          elif sys.platform == "darwin":
              app_map = {"calculator": "Calculator", "chrome": "Google Chrome", "firefox": "Firefox",
                         "finder": "Finder", "textedit": "TextEdit", "obs": "OBS", "obs studio": "OBS",
                         "discord": "Discord", "spotify": "Spotify"}
              app_name = app_map.get(name_lower, application_name)
              subprocess.Popen(["open", "-a", app_name])
              return {"status": "success", "message": f"Successfully launched '{application_name}'."}
          else:
              subprocess.Popen([name_lower])
              return {"status": "success", "message": f"Successfully launched '{application_name}'."}
      except Exception as e: return {"status": "error", "message": f"An error occurred: {str(e)}"}
  \<close>
\<close>

definition app_map_win32 :: "(string \<times> string) list" where
  "app_map_win32 =
     [(''calculator'', ''calc.exe''), (''notepad'', ''notepad.exe''), (''paint'', ''mspaint.exe''),
      (''wordpad'', ''write.exe''), (''task manager'', ''taskmgr.exe''),
      (''file explorer'', ''explorer.exe''), (''explorer'', ''explorer.exe''),
      (''cmd'', ''cmd.exe''), (''command prompt'', ''cmd.exe''),
      (''powershell'', ''powershell.exe''), (''windows powershell'', ''powershell.exe''),
      (''powershell 7'', ''pwsh.exe''), (''pwsh'', ''pwsh.exe''), (''terminal'', ''wt.exe''),
      (''windows terminal'', ''wt.exe''), (''git bash'', ''git-bash.exe''),
      (''gitbash'', ''git-bash.exe''), (''chrome'', ''chrome.exe''),
      (''google chrome'', ''chrome.exe''), (''firefox'', ''firefox.exe''),
      (''brave'', ''brave.exe''), (''brave browser'', ''brave.exe''), (''edge'', ''msedge.exe''),
      (''microsoft edge'', ''msedge.exe''), (''obs'', ''obs64.exe''),
      (''obs studio'', ''obs64.exe''), (''vlc'', ''vlc.exe''), (''discord'', ''discord.exe''),
      (''spotify'', ''spotify.exe''), (''steam'', ''steam.exe''),
      (''epic games'', ''epicgameslauncher.exe''), (''epic'', ''epicgameslauncher.exe''),
      (''mumuplayer'', ''MuMuNxMain.exe''), (''mumu'', ''MuMuNxMain.exe''),
      (''mumu player'', ''MuMuNxMain.exe''), (''vs code'', ''code.exe''),
      (''vscode'', ''code.exe''), (''visual studio code'', ''code.exe''),
      (''word'', ''winword.exe''), (''microsoft word'', ''winword.exe''),
      (''excel'', ''excel.exe''), (''microsoft excel'', ''excel.exe''),
      (''powerpoint'', ''powerpnt.exe''), (''snipping tool'', ''snippingtool.exe''),
      (''teams'', ''ms-teams:''), (''microsoft teams'', ''ms-teams:''),
      (''outlook'', ''outlook.exe''), (''microsoft outlook'', ''outlook.exe''),
      (''skype'', ''skype.exe''), (''zoom'', ''zoom.exe''), (''telegram'', ''telegram.exe''),
      (''whatsapp'', ''whatsapp.exe''), (''filmora'', ''Wondershare Filmora Launcher.exe'')]"

definition console_apps :: "string list" where
  "console_apps = [''cmd.exe'', ''powershell.exe'', ''pwsh.exe'', ''wt.exe'', ''git-bash.exe'']"

definition app_map_darwin :: "(string \<times> string) list" where
  "app_map_darwin =
     [(''calculator'', ''Calculator''), (''chrome'', ''Google Chrome''), (''firefox'', ''Firefox''),
      (''finder'', ''Finder''), (''textedit'', ''TextEdit''), (''obs'', ''OBS''),
      (''obs studio'', ''OBS''), (''discord'', ''Discord''), (''spotify'', ''Spotify'')]"

definition environ_get :: "'w os \<Rightarrow> string \<Rightarrow> string \<Rightarrow> string" where
  "environ_get os k dflt = (case os_environ os k of None \<Rightarrow> dflt | Some v \<Rightarrow> v)"

definition search_dirs :: "'w os \<Rightarrow> string list" where
  "search_dirs os =
     [environ_get os ''ProgramFiles'' (''C:'' @ [backslash] @ ''Program Files''),
      environ_get os ''ProgramFiles(x86)'' (''C:'' @ [backslash] @ ''Program Files (x86)''),
      environ_get os ''LocalAppData'' [],
      os_path_join os (environ_get os ''LocalAppData'' []) ''Programs'',
      os_path_join os (environ_get os ''AppData'' []) (''..'' @ [backslash] @ ''Local'' @ [backslash] @ ''Programs''),
      os_path_join os (environ_get os ''AppData'' []) (''Local'' @ [backslash] @ ''Programs'')]"

text \<open>\<open>os.walk\<close> without pruning: every directory of the tree, top-down, with its path.\<close>

fun walk :: "(string \<Rightarrow> string \<Rightarrow> string) \<Rightarrow> string \<Rightarrow> dirtree \<Rightarrow> (string \<times> string list \<times> string list) list" where
  "walk join root (Dir n files subs) =
     (root, map dir_name subs, files) # concat (map (\<lambda>t. walk join (join root (dir_name t)) t) subs)"

fun find_in_walk :: "string \<Rightarrow> (string \<times> string list \<times> string list) list \<Rightarrow> string option" where
  "find_in_walk exe [] = None"
| "find_in_walk exe ((root, dirs, files) # rest) =
     (if lower exe \<in> set (map lower files) then Some root else find_in_walk exe rest)"

fun find_in_dirs :: "'w os \<Rightarrow> 'w \<Rightarrow> string \<Rightarrow> string list \<Rightarrow> string option" where
  "find_in_dirs os w exe [] = None"
| "find_in_dirs os w exe (d # ds) =
     (if d = [] \<or> \<not> os_path_isdir os w d then find_in_dirs os w exe ds
      else (case find_in_walk exe (walk (os_path_join os) d (os_tree os w d)) of
              Some root \<Rightarrow> Some (os_path_join os root exe)
            | None \<Rightarrow> find_in_dirs os w exe ds))"

definition launch ::
  "'w os \<Rightarrow> command \<Rightarrow> string \<Rightarrow> 'w \<Rightarrow> (exn + pydict) \<times> 'w" where
  "launch os cmd message w =
     (case os_popen os cmd w of
        (Some e, w1) \<Rightarrow> (Inl e, w1)
      | (None, w1) \<Rightarrow> (Inr (status_msg ''success'' message), w1))"

definition start_quoted :: "string \<Rightarrow> command" where
  \<open>start_quoted t = Shell (''start "" "'' @ t @ ''"'')\<close>

definition open_application_body :: "'w os \<Rightarrow> pyval \<Rightarrow> 'w \<Rightarrow> (exn + pydict) \<times> 'w" where
  "open_application_body os application_name w =
     (case str_arg application_name of
        None \<Rightarrow> (Inr (status_msg ''error'' ''Invalid application name provided.''), w)
      | Some app \<Rightarrow>
          let name_lower = strip (lower app);
              launched = ''Successfully launched '' @ quoted app @ ''.'';
              attempted = ''Attempted to launch '' @ quoted app @ ''.''
          in
          if os_platform os = ''win32'' then
            (case map_of app_map_win32 name_lower of
               Some exe \<Rightarrow>
                 if exe = [] then launch os (start_quoted app) attempted w
                 else if endswith exe '':'' then launch os (Shell (''start '' @ exe)) launched w
                 else if lower exe \<in> set console_apps then launch os (start_quoted exe) launched w
                 else
                   (case os_popen os (Program exe) w of
                      (None, w1) \<Rightarrow> (Inr (status_msg ''success'' launched), w1)
                    | (Some e, w1) \<Rightarrow>
                        if exn_class e \<noteq> ''FileNotFoundError'' then (Inl e, w1)
                        else
                          (case find_in_dirs os w1 exe (search_dirs os) of
                             Some full_path \<Rightarrow>
                               launch os (Program full_path)
                                 (''Launched '' @ quoted app @ '' from '' @ full_path @ ''.'') w1
                           | None \<Rightarrow> launch os (start_quoted exe) attempted w1))
             | None \<Rightarrow> launch os (start_quoted app) attempted w)
          else if os_platform os = ''darwin'' then
            launch os
              (Argv [''open'', ''-a'',
                     (case map_of app_map_darwin name_lower of Some a \<Rightarrow> a | None \<Rightarrow> app)])
              launched w
          else launch os (Argv [name_lower]) launched w)"

definition open_application :: "'w os \<Rightarrow> pyval \<Rightarrow> 'w \<Rightarrow> (exn + pydict) \<times> 'w" where
  "open_application os application_name =
     try_except (open_application_body os application_name)
       (\<lambda>e. status_msg ''error'' (''An error occurred: '' @ exn_str e))"
text \<open>
  \<^verbatim>\<open>
  def _open_direct_youtube(self, query, content_type="channel"):
      try:
          if not query or not isinstance(query, str):
              return {"status": "error", "message": "Invalid query."}
          encoded = query.replace(" ", "+")
          if content_type == "channel":
              url = f"https://www.youtube.com/results?search_query={encoded}&sp=EgIQAg%253D%253D"
          elif content_type == "video":
              url = f"https://www.youtube.com/results?search_query={encoded}&sp=EgIQAQ%253D%253D"
          else:
              url = f"https://www.youtube.com/results?search_query={encoded}"
          webbrowser.open(url)
          return {"status": "success", "message": f"Opened YouTube search for '{query}'. The first result should be the {content_type}. The user can now click it themselves, or you can ask them to share the URL so you can open it directly."}
      except Exception as e:
          return {"status": "error", "message": f"An error occurred: {str(e)}"}
  \<close>
\<close>

definition browse :: "'w os \<Rightarrow> string \<Rightarrow> string \<Rightarrow> 'w \<Rightarrow> (exn + pydict) \<times> 'w" where
  "browse os url message w =
     (case os_browser_open os url w of
        (Some e, w1) \<Rightarrow> (Inl e, w1)
      | (None, w1) \<Rightarrow> (Inr (status_msg ''success'' message), w1))"

definition open_direct_youtube_body ::
  "'w os \<Rightarrow> pyval \<Rightarrow> pyval \<Rightarrow> 'w \<Rightarrow> (exn + pydict) \<times> 'w" where
  "open_direct_youtube_body os query content_type w =
     (case str_arg query of
        None \<Rightarrow> (Inr (status_msg ''error'' ''Invalid query.''), w)
      | Some q \<Rightarrow>
          let encoded = replace_char (CHR '' '') ''+'' q;
              url = (if content_type = PStr ''channel''
                     then ''https://www.youtube.com/results?search_query='' @ encoded
                            @ ''&sp=EgIQAg%253D%253D''
                     else if content_type = PStr ''video''
                     then ''https://www.youtube.com/results?search_query='' @ encoded
                            @ ''&sp=EgIQAQ%253D%253D''
                     else ''https://www.youtube.com/results?search_query='' @ encoded)
          in browse os url
               (''Opened YouTube search for '' @ quoted q @ ''. The first result should be the ''
                  @ py_str content_type
                  @ ''. The user can now click it themselves, or you can ask them to share the URL so you can open it directly.'')
               w)"

definition open_direct_youtube ::
  "'w os \<Rightarrow> pyval \<Rightarrow> pyval \<Rightarrow> 'w \<Rightarrow> (exn + pydict) \<times> 'w" where
  "open_direct_youtube os query content_type =
     try_except (open_direct_youtube_body os query content_type)
       (\<lambda>e. status_msg ''error'' (''An error occurred: '' @ exn_str e))"

text \<open>
  \<^verbatim>\<open>
  def _search_and_open(self, query, platform="youtube"):
      try:
          if not query or not isinstance(query, str):
              return {"status": "error", "message": "Invalid query."}
          encoded = query.replace(" ", "+")
          if platform == "youtube":
              url = "https://www.youtube.com/@" + query.replace(' ', '')    # written as an f-string
              webbrowser.open(url)
              return {"status": "success", "message": f"Attempted to open YouTube channel for '{query}' via direct handle URL. If it doesn't load, I'll search instead."}
          elif platform == "google":
              url = f"https://www.google.com/search?q={encoded}"
              webbrowser.open(url)
              return {"status": "success", "message": f"Opened Google search for '{query}'."}
          else:
              url = f"https://www.youtube.com/results?search_query={encoded}"
              webbrowser.open(url)
              return {"status": "success", "message": f"Opened search for '{query}' on {platform}."}
      except Exception as e:
          return {"status": "error", "message": f"An error occurred: {str(e)}"}
  \<close>
\<close>

definition search_and_open_body ::
  "'w os \<Rightarrow> pyval \<Rightarrow> pyval \<Rightarrow> 'w \<Rightarrow> (exn + pydict) \<times> 'w" where
  "search_and_open_body os query platform w =
     (case str_arg query of
        None \<Rightarrow> (Inr (status_msg ''error'' ''Invalid query.''), w)
      | Some q \<Rightarrow>
          let encoded = replace_char (CHR '' '') ''+'' q in
          if platform = PStr ''youtube'' then
            browse os (''https://www.youtube.com/@'' @ replace_char (CHR '' '') [] q)
              (''Attempted to open YouTube channel for '' @ quoted q
                 @ '' via direct handle URL. If it doesn'' @ [sq] @ ''t load, I'' @ [sq]
                 @ ''ll search instead.'') w
          else if platform = PStr ''google'' then
            browse os (''https://www.google.com/search?q='' @ encoded)
              (''Opened Google search for '' @ quoted q @ ''.'') w
          else
            browse os (''https://www.youtube.com/results?search_query='' @ encoded)
              (''Opened search for '' @ quoted q @ '' on '' @ py_str platform @ ''.'') w)"

definition search_and_open ::
  "'w os \<Rightarrow> pyval \<Rightarrow> pyval \<Rightarrow> 'w \<Rightarrow> (exn + pydict) \<times> 'w" where
  "search_and_open os query platform =
     try_except (search_and_open_body os query platform)
       (\<lambda>e. status_msg ''error'' (''An error occurred: '' @ exn_str e))"

text \<open>
  \<^verbatim>\<open>
  def _close_application(self, application_name):
      try:
          if not application_name or not isinstance(application_name, str):
              return {"status": "error", "message": "Invalid application name provided."}
          name_lower = application_name.lower().strip()
          if sys.platform == "win32":
              process_map = {"chrome": ["chrome.exe"], ...}
              processes = process_map.get(name_lower, [application_name if application_name.endswith(".exe") else application_name + ".exe"])
              killed = []
              for proc in processes:
                  result = subprocess.run(f"taskkill /F /IM {proc}", shell=True, capture_output=True, text=True)
                  if result.returncode == 0:
                      killed.append(proc)
              if killed:
                  return {"status": "success", "message": f"Successfully closed '{application_name}'."}
              else:
                  result = subprocess.run(f'taskkill /F /FI "WINDOWTITLE eq *{application_name}*"', shell=True, capture_output=True, text=True)
                  if result.returncode == 0:
                      return {"status": "success", "message": f"Closed '{application_name}' by window title."}
                  return {"status": "not_found", "message": f"'{application_name}' does not appear to be running."}
          elif sys.platform == "darwin":
              result = subprocess.run(["pkill", "-x", application_name], capture_output=True)
              if result.returncode == 0:
                  return {"status": "success", "message": f"Closed '{application_name}'."}
              return {"status": "not_found", "message": f"'{application_name}' does not appear to be running."}
          else:
              result = subprocess.run(["pkill", application_name], capture_output=True)
              if result.returncode == 0:
                  return {"status": "success", "message": f"Closed '{application_name}'."}
              return {"status": "not_found", "message": f"'{application_name}' does not appear to be running."}
      except Exception as e:
          return {"status": "error", "message": f"Failed to close '{application_name}': {str(e)}"}
  \<close>
\<close>

definition process_map :: "(string \<times> string list) list" where
  "process_map =
     [(''chrome'', [''chrome.exe'']), (''google chrome'', [''chrome.exe'']),
      (''brave'', [''brave.exe'']), (''brave browser'', [''brave.exe'']),
      (''firefox'', [''firefox.exe'']), (''edge'', [''msedge.exe'']),
      (''microsoft edge'', [''msedge.exe'']), (''discord'', [''discord.exe'']),
      (''spotify'', [''spotify.exe'']), (''steam'', [''steam.exe'']),
      (''obs'', [''obs64.exe'']), (''obs studio'', [''obs64.exe'']), (''vlc'', [''vlc.exe'']),
      (''notepad'', [''notepad.exe'']), (''calculator'', [''calculatorapp.exe'', ''calc.exe'']),
      (''explorer'', [''explorer.exe'']), (''file explorer'', [''explorer.exe'']),
      (''task manager'', [''taskmgr.exe'']), (''cmd'', [''cmd.exe'']),
      (''command prompt'', [''cmd.exe'']), (''powershell'', [''powershell.exe'']),
      (''teams'', [''ms-teams.exe'', ''teams.exe'']),
      (''microsoft teams'', [''ms-teams.exe'', ''teams.exe'']),
      (''outlook'', [''outlook.exe'']), (''word'', [''winword.exe'']),
      (''microsoft word'', [''winword.exe'']), (''excel'', [''excel.exe'']),
      (''microsoft excel'', [''excel.exe'']), (''powerpoint'', [''powerpnt.exe'']),
      (''zoom'', [''zoom.exe'']), (''telegram'', [''telegram.exe'']), (''skype'', [''skype.exe'']),
      (''mumuplayer'', [''MuMuNxMain.exe'']), (''mumu'', [''MuMuNxMain.exe'']),
      (''mumu player'', [''MuMuNxMain.exe'']), (''epic games'', [''epicgameslauncher.exe'']),
      (''vs code'', [''code.exe'']), (''vscode'', [''code.exe'']),
      (''visual studio code'', [''code.exe'']), (''paint'', [''mspaint.exe'']),
      (''filmora'', [''Filmora.exe'']), (''whatsapp'', [''whatsapp.exe''])]"

text \<open>The loop over \<open>processes\<close>: the processes killed so far, or the exception of a run.\<close>

fun kill_all :: "'w os \<Rightarrow> string list \<Rightarrow> string list \<Rightarrow> 'w \<Rightarrow> (exn + string list) \<times> 'w" where
  "kill_all os [] killed w = (Inr killed, w)"
| "kill_all os (proc # procs) killed w =
     (case os_run os (Shell (''taskkill /F /IM '' @ proc)) w of
        (Inl e, w1) \<Rightarrow> (Inl e, w1)
      | (Inr returncode, w1) \<Rightarrow>
          kill_all os procs (if returncode = 0 then killed @ [proc] else killed) w1)"

definition close_by ::
  "'w os \<Rightarrow> command \<Rightarrow> string \<Rightarrow> string \<Rightarrow> 'w \<Rightarrow> (exn + pydict) \<times> 'w" where
  "close_by os cmd app closed w =
     (case os_run os cmd w of
        (Inl e, w1) \<Rightarrow> (Inl e, w1)
      | (Inr returncode, w1) \<Rightarrow>
          if returncode = 0 then (Inr (status_msg ''success'' closed), w1)
          else (Inr (status_msg ''not_found''
                  (quoted app @ '' does not appear to be running.'')), w1))"

definition window_title_kill :: "string \<Rightarrow> command" where
  \<open>window_title_kill app = Shell (''taskkill /F /FI "WINDOWTITLE eq *'' @ app @ ''*"'')\<close>

definition close_application_body :: "'w os \<Rightarrow> pyval \<Rightarrow> 'w \<Rightarrow> (exn + pydict) \<times> 'w" where
  "close_application_body os application_name w =
     (case str_arg application_name of
        None \<Rightarrow> (Inr (status_msg ''error'' ''Invalid application name provided.''), w)
      | Some app \<Rightarrow>
          let name_lower = strip (lower app) in
          if os_platform os = ''win32'' then
            (let processes = (case map_of process_map name_lower of
                                Some ps \<Rightarrow> ps
                              | None \<Rightarrow> [if endswith app ''.exe'' then app else app @ ''.exe''])
             in case kill_all os processes [] w of
                  (Inl e, w1) \<Rightarrow> (Inl e, w1)
                | (Inr killed, w1) \<Rightarrow>
                    if killed \<noteq> []
                    then (Inr (status_msg ''success'' (''Successfully closed '' @ quoted app @ ''.'')), w1)
                    else close_by os (window_title_kill app) app
                           (''Closed '' @ quoted app @ '' by window title.'') w1)
          else if os_platform os = ''darwin'' then
            close_by os (Argv [''pkill'', ''-x'', app]) app (''Closed '' @ quoted app @ ''.'') w
          else
            close_by os (Argv [''pkill'', app]) app (''Closed '' @ quoted app @ ''.'') w)"

definition close_application :: "'w os \<Rightarrow> pyval \<Rightarrow> 'w \<Rightarrow> (exn + pydict) \<times> 'w" where
  "close_application os application_name =
     try_except (close_application_body os application_name)
       (\<lambda>e. status_msg ''error''
          (''Failed to close '' @ quoted (py_str application_name) @ '': '' @ exn_str e))"

text \<open>
  \<^verbatim>\<open>
  def _open_website(self, url):
      try:
          if not url or not isinstance(url, str): return {"status": "error", "message": "Invalid URL provided."}
          if not url.startswith(('http://', 'https://')): url = 'https://' + url
          webbrowser.open(url)
          return {"status": "success", "message": f"Successfully opened '{url}'."}
      except Exception as e: return {"status": "error", "message": f"An error occurred: {str(e)}"}
  \<close>
\<close>

definition open_website_body :: "'w os \<Rightarrow> pyval \<Rightarrow> 'w \<Rightarrow> (exn + pydict) \<times> 'w" where
  "open_website_body os url w =
     (case str_arg url of
        None \<Rightarrow> (Inr (status_msg ''error'' ''Invalid URL provided.''), w)
      | Some u \<Rightarrow>
          let u1 = (if \<not> (startswith u ''http://'' \<or> startswith u ''https://'')
                    then ''https://'' @ u else u)
          in browse os u1 (''Successfully opened '' @ quoted u1 @ ''.'') w)"

definition open_website :: "'w os \<Rightarrow> pyval \<Rightarrow> 'w \<Rightarrow> (exn + pydict) \<times> 'w" where
  "open_website os url =
     try_except (open_website_body os url)
       (\<lambda>e. status_msg ''error'' (''An error occurred: '' @ exn_str e))"

text \<open>The four values of \<open>status\<close>, and a result that carries one of them and a message.\<close>

definition statuses :: "string list" where
  "statuses = [''success'', ''error'', ''skipped'', ''not_found'']"

definition status_of :: "pydict \<Rightarrow> string option" where
  "status_of d = (case map_of d ''status'' of Some (PStr st) \<Rightarrow> Some st | _ \<Rightarrow> None)"

definition message_of :: "pydict \<Rightarrow> string option" where
  "message_of d = (case map_of d ''message'' of Some (PStr m) \<Rightarrow> Some m | _ \<Rightarrow> None)"

definition structured :: "pydict \<Rightarrow> bool" where
  "structured d =
     (case status_of d of
        None \<Rightarrow> False
      | Some st \<Rightarrow> st \<in> set statuses \<and> message_of d \<noteq> None)"

definition returns_structured :: "(exn + pydict) \<times> 'w \<Rightarrow> bool" where
  "returns_structured r = (case fst r of Inl e \<Rightarrow> False | Inr d \<Rightarrow> structured d)"
text \<open>
  A small operating system for the examples: nothing exists, creating a directory is
  refused, everything else succeeds.
\<close>

definition sample_os :: "unit os" where
  "sample_os =
     \<lparr>os_platform = ''linux'', os_home = ''/home/user'', os_environ = (\<lambda>k. None),
      os_path_join = (\<lambda>a b. a @ ''/'' @ b), os_path_basename = (\<lambda>p. p),
      os_path_dirname = (\<lambda>p. p), os_path_abspath = (\<lambda>w p. p),
      os_path_exists = (\<lambda>w p. False), os_fd_exists = (\<lambda>w i. False),
      os_path_isdir = (\<lambda>w p. False), os_path_isfile = (\<lambda>w p. False),
      os_tree = (\<lambda>w p. Dir p [] []), os_listdir = (\<lambda>w p. Inr []),
      os_read_text = (\<lambda>w p. Inr []),
      os_makedirs = (\<lambda>p ok w. (Some (Exn ''PermissionError'' ''Permission denied''), w)),
      os_write_text = (\<lambda>p a c w. (None, w)), os_move = (\<lambda>a b w. (None, w)),
      os_popen = (\<lambda>c w. (None, w)), os_run = (\<lambda>c w. (Inr 1, w)),
      os_browser_open = (\<lambda>u w. (None, w)), os_startfile = (\<lambda>p w. (None, w))\<rparr>"

section \<open>Response stream: tool calls\<close>

text \<open>
  A tool call of a chunk, \<open>fc\<close> in the source: \<open>fc.id\<close>, \<open>fc.name\<close> and \<open>fc.args\<close>.
\<close>

record function_call =
  fc_id :: string
  fc_name :: string
  fc_args :: pydict

text \<open>
  The branches of \<open>receive_text\<close> run a helper and emit signals whose HTML body is an
  f-string around values of the call. A step of a branch returns a value or raises, in
  the state it has reached; \<open>then_do\<close> runs the next step unless the one before raised.
\<close>

definition then_do :: "(exn + 'a) \<times> 's \<Rightarrow> ('a \<Rightarrow> 's \<Rightarrow> (exn + 'b) \<times> 's) \<Rightarrow> (exn + 'b) \<times> 's" where
  "then_do r k = (case r of (Inl e, s) \<Rightarrow> (Inl e, s) | (Inr a, s) \<Rightarrow> k a s)"

definition in_world :: "('w \<Rightarrow> 'a \<times> 'w) \<Rightarrow> 'w core \<Rightarrow> 'a \<times> 'w core" where
  "in_world f s = (case f (world s) of (r, w1) \<Rightarrow> (r, s\<lparr>world := w1\<rparr>))"

fun sequence :: "(exn + 'a) list \<Rightarrow> exn + 'a list" where
  "sequence [] = Inr []"
| "sequence (Inl e # rs) = Inl e"
| "sequence (Inr a # rs) = (case sequence rs of Inl e \<Rightarrow> Inl e | Inr as \<Rightarrow> Inr (a # as))"

text \<open>
  \<open>self.tool_activity_received.emit(tag, f'...')\<close>. The tags and the templates of the
  bodies hold pictographs; the model keeps the words of the tag and, for the body, the
  interpolated values in the order of the template (pictographs left out). The values
  are computed from left to right before the signal is emitted, so a value that raises
  leaves the signal out.
\<close>

definition activity :: "string \<Rightarrow> (exn + string) list \<Rightarrow> 'w core \<Rightarrow> (exn + unit) \<times> 'w core" where
  "activity tag parts s =
     (case sequence parts of
        Inl e \<Rightarrow> (Inl e, s)
      | Inr ps \<Rightarrow> (Inr (), emit (Tool_activity_received tag ps) s))"

definition is_success :: "pydict \<Rightarrow> bool" where
  "is_success result = (get result ''status'' = PStr ''success'')"

definition color :: "bool \<Rightarrow> string \<Rightarrow> exn + string" where
  "color ok failed = Inr (if ok then ''#90EE90'' else failed)"

definition message_part :: "pydict \<Rightarrow> exn + string" where
  "message_part result = py_escape (get_or result ''message'' (PStr []))"

text \<open>Operations of strings on a value of any type.\<close>

fun py_upper :: "pyval \<Rightarrow> exn + pyval" where
  "py_upper (PStr t) = Inr (PStr (upper t))"
| "py_upper v = Inl (attribute_error ''upper'')"

fun py_len :: "pyval \<Rightarrow> exn + nat" where
  "py_len (PStr t) = Inr (length t)"
| "py_len (PBytes b) = Inr (length b)"
| "py_len (PList vs) = Inr (length vs)"
| "py_len v = Inl (type_error ''object has no len()'')"

fun count_lines :: "pyval \<Rightarrow> exn + string" where
  "count_lines (PStr t) = Inr (str_int (int (length (splitlines t))))"
| "count_lines v = Inl (attribute_error ''splitlines'')"

fun py_basename :: "'w os \<Rightarrow> pyval \<Rightarrow> exn + pyval" where
  "py_basename os (PStr t) = Inr (PStr (os_path_basename os t))"
| "py_basename os v = Inl (type_error ''expected str, bytes or os.PathLike object'')"

text \<open>
  \<open>url.split("//")[-1].split("/")[0] if "//" in url else url\<close>. On a list \<open>in\<close> is
  membership; on the other values that are not strings it raises.
\<close>

fun display_of :: "pyval \<Rightarrow> exn + pyval" where
  "display_of (PStr u) =
     Inr (PStr (if contains ''//'' u then hd (split (last (split u ''//'')) ''/'') else u))"
| "display_of (PList vs) =
     (if PStr ''//'' \<in> set vs then Inl (attribute_error ''split'') else Inr (PList vs))"
| "display_of v = Inl (type_error ''argument is not iterable'')"

text \<open>
  \<open>result.get("content", "")[:120].replace("\n", " ") if ok else result.get("message", "")\<close>,
  and the dots that follow when the content is longer than 120.
\<close>

fun preview_of :: "bool \<Rightarrow> pydict \<Rightarrow> exn + pyval" where
  "preview_of ok result =
     (if ok then
        (case get_or result ''content'' (PStr []) of
           PStr t \<Rightarrow> Inr (PStr (replace_char newline '' '' (take 120 t)))
         | PList vs \<Rightarrow> Inl (attribute_error ''replace'')
         | PBytes b \<Rightarrow> Inl (type_error ''a bytes-like object is required'')
         | v \<Rightarrow> Inl (type_error ''object is not subscriptable''))
      else Inr (get_or result ''message'' (PStr [])))"

definition dots_of :: "pydict \<Rightarrow> exn + string" where
  "dots_of result =
     (case py_len (get_or result ''content'' (PStr [])) of
        Inl e \<Rightarrow> Inl e
      | Inr n \<Rightarrow> Inr (if n > 120 then ''...'' else []))"

definition escaped :: "exn + pyval \<Rightarrow> exn + string" where
  "escaped r = (case r of Inl e \<Rightarrow> Inl e | Inr v \<Rightarrow> py_escape v)"

text \<open>\<open>a or b\<close>.\<close>

definition or_val :: "pyval \<Rightarrow> pyval \<Rightarrow> pyval" where
  "or_val a b = (if truthy a then a else b)"

text \<open>
  \<open>os.path.exists\<close> on a value that is true: a string is a path, an integer is a file
  descriptor, a list raises \<open>TypeError\<close>.
\<close>

fun exists_val :: "'w os \<Rightarrow> 'w \<Rightarrow> pyval \<Rightarrow> exn + bool" where
  "exists_val os w (PStr p) = Inr (os_path_exists os w p)"
| "exists_val os w (PBytes b) = Inr (os_path_exists os w (map (\<lambda>x. char_of (unat x)) b))"
| "exists_val os w (PInt i) = Inr (os_fd_exists os w i)"
| "exists_val os w (PBool b) = Inr (os_fd_exists os w (if b then 1 else 0))"
| "exists_val os w v = Inl (type_error ''stat: path should be string, bytes, os.PathLike or integer'')"

text \<open>
  The branches, in the order of the source. Each returns \<open>result\<close>.
  \<^verbatim>\<open>
  if fc.name == "create_folder":
      path = args.get("folder_path", "")
      result = self._create_folder(folder_path=path)
      ok = result.get("status") == "success"
      icon = ... if ok else ...
      color = "#90EE90" if ok else "#ff9944"
      self.tool_activity_received.emit("... CREATE FOLDER",
          f'<p style="color:{color};">{icon} <span style="color:#87CEEB;">{escape(path)}</span><br>'
          f'<span style="color:#888; font-size:9pt;">{escape(result.get("message",""))}</span></p>')
  elif fc.name == "create_file":
      path = args.get("file_path", "")
      result = self._create_file(file_path=path, content=args.get("content", ""))
      ok = result.get("status") == "success"
      lines = len(args.get("content","").splitlines())
      color = "#90EE90" if ok else "#ff9944"
      self.tool_activity_received.emit("... CREATE FILE",
          f'<p style="color:{color};">... <span style="color:#87CEEB;">{escape(path)}</span><br>'
          f'<span style="color:#888; font-size:9pt;">{lines} line(s) written &mdash; {escape(result.get("message",""))}</span></p>')
  elif fc.name == "edit_file":
      path = args.get("file_path", "")
      result = self._edit_file(file_path=path, content=args.get("content", ""))
      ok = result.get("status") == "success"
      color = "#90EE90" if ok else "#ff9944"
      self.tool_activity_received.emit("... EDIT FILE",
          f'<p style="color:{color};">... <span style="color:#87CEEB;">{escape(path)}</span><br>'
          f'<span style="color:#888; font-size:9pt;">{escape(result.get("message",""))}</span></p>')
  elif fc.name == "list_files":
      result = self._list_files(directory_path=args.get("directory_path"))
      if result.get("status") == "success":
          file_list_data = (result.get("directory_path"), result.get("files"))
  elif fc.name == "read_file":
      path = args.get("file_path", "")
      result = self._read_file(file_path=path)
      ok = result.get("status") == "success"
      color = "#90EE90" if ok else "#ff9944"
      preview = result.get("content", "")[:120].replace("\n", " ") if ok else result.get("message", "")
      self.tool_activity_received.emit("... READ FILE",
          f'<p>... <span style="color:#87CEEB;">{escape(path)}</span></p>'
          f'<p style="color:{color}; font-size:9pt; font-style:italic;">{escape(preview)}{"..." if len(result.get("content","")) > 120 else ""}</p>')
  \<close>
\<close>

definition tool_create_folder :: "'w os \<Rightarrow> pydict \<Rightarrow> 'w core \<Rightarrow> (exn + pydict) \<times> 'w core" where
  "tool_create_folder os args s =
     (let path = get_or args ''folder_path'' (PStr []) in
      then_do (in_world (create_folder os path) s) (\<lambda>result s1.
      then_do (activity ''CREATE FOLDER''
                 [color (is_success result) ''#ff9944'', py_escape path, message_part result] s1)
        (\<lambda>u s2. (Inr result, s2))))"

definition tool_create_file :: "'w os \<Rightarrow> pydict \<Rightarrow> 'w core \<Rightarrow> (exn + pydict) \<times> 'w core" where
  "tool_create_file os args s =
     (let path = get_or args ''file_path'' (PStr []);
          content = get_or args ''content'' (PStr []) in
      then_do (in_world (create_file os path content) s) (\<lambda>result s1.
      then_do (case count_lines content of Inl e \<Rightarrow> (Inl e, s1) | Inr lines \<Rightarrow> (Inr lines, s1))
        (\<lambda>lines s2.
      then_do (activity ''CREATE FILE''
                 [color (is_success result) ''#ff9944'', py_escape path, Inr lines,
                  message_part result] s2)
        (\<lambda>u s3. (Inr result, s3)))))"

definition tool_edit_file :: "'w os \<Rightarrow> pydict \<Rightarrow> 'w core \<Rightarrow> (exn + pydict) \<times> 'w core" where
  "tool_edit_file os args s =
     (let path = get_or args ''file_path'' (PStr []);
          content = get_or args ''content'' (PStr []) in
      then_do (in_world (edit_file os path content) s) (\<lambda>result s1.
      then_do (activity ''EDIT FILE''
                 [color (is_success result) ''#ff9944'', py_escape path, message_part result] s1)
        (\<lambda>u s2. (Inr result, s2))))"

definition tool_list_files :: "'w os \<Rightarrow> pydict \<Rightarrow> 'w core \<Rightarrow> (exn + pydict) \<times> 'w core" where
  "tool_list_files os args s = in_world (list_files os (get args ''directory_path'')) s"

definition tool_read_file :: "'w os \<Rightarrow> pydict \<Rightarrow> 'w core \<Rightarrow> (exn + pydict) \<times> 'w core" where
  "tool_read_file os args s =
     (let path = get_or args ''file_path'' (PStr []) in
      then_do (in_world (read_file os path) s) (\<lambda>result s1.
      then_do (case preview_of (is_success result) result of
                 Inl e \<Rightarrow> (Inl e, s1) | Inr preview \<Rightarrow> (Inr preview, s1))
        (\<lambda>preview s2.
      then_do (activity ''READ FILE''
                 [py_escape path, color (is_success result) ''#ff9944'', py_escape preview,
                  dots_of result] s2)
        (\<lambda>u s3. (Inr result, s3)))))"
text \<open>
  \<^verbatim>\<open>
  elif fc.name == "open_application":
      app = args.get("application_name", "")
      self.tool_activity_received.emit("... LAUNCHING APP",
          f'<p>... <span style="color:#00ffff; font-weight:bold;">{escape(app)}</span>'
          f'<span style="color:#888;"> &mdash; initializing...</span></p>')
      result = self._open_application(application_name=app)
      ok = result.get("status") == "success"
      color = "#90EE90" if ok else "#ff9944"
      icon = ... if ok else ...
      self.tool_activity_received.emit("... APP LAUNCHED",
          f'<p style="color:{color};">{icon} <span style="color:#00ffff;">{escape(app)}</span> &mdash; {escape(result.get("message",""))}</p>')
  elif fc.name == "close_application":
      app = args.get("application_name", "")
      self.tool_activity_received.emit("... CLOSING APP",
          f'<p>... Terminating <span style="color:#ff9944; font-weight:bold;">{escape(app)}</span>...</p>')
      result = self._close_application(application_name=app)
      ok = result.get("status") == "success"
      color = "#90EE90" if ok else "#ff6b6b"
      icon = ... if ok else ...
      self.tool_activity_received.emit("... APP CLOSED",
          f'<p style="color:{color};">{icon} <span style="color:#ff9944;">{escape(app)}</span> &mdash; {escape(result.get("message",""))}</p>')
  elif fc.name == "open_website":
      url = args.get("url", "")
      result = self._open_website(url=url)
      ok = result.get("status") == "success"
      display = url.split("//")[-1].split("/")[0] if "//" in url else url
      color = "#90EE90" if ok else "#ff9944"
      self.tool_activity_received.emit("... OPEN WEBSITE",
          f'<p>... <a href="{escape(url)}" style="color:#00ffff; text-decoration:none;">{escape(display)}</a></p>'
          f'<p style="color:{color}; font-size:9pt;">{escape(result.get("message",""))}</p>')
  elif fc.name == "open_direct_youtube":
      query = args.get("query", "")
      ctype = args.get("content_type", "channel")
      result = self._open_direct_youtube(query=query, content_type=ctype)
      self.tool_activity_received.emit("... YOUTUBE SEARCH",
          f'<p>... <span style="color:#ff4444;">You</span><span style="color:#ffffff;">Tube</span>'
          f' &mdash; <span style="color:#00ffff;">{escape(query)}</span>'
          f' <span style="color:#888; font-size:9pt;">({ctype})</span></p>')
  elif fc.name == "search_and_open":
      query = args.get("query", "")
      platform = args.get("platform", "youtube")
      result = self._search_and_open(query=query, platform=platform)
      plat_color = "#ff4444" if platform == "youtube" else "#4488ff"
      self.tool_activity_received.emit("... SEARCH & OPEN",
          f'<p>... <span style="color:{plat_color}; font-weight:bold;">{escape(platform.upper())}</span>'
          f' &rarr; <span style="color:#00ffff;">{escape(query)}</span></p>'
          f'<p style="color:#90EE90; font-size:9pt;">Opening best match...</p>')
  \<close>
\<close>

definition tool_open_application :: "'w os \<Rightarrow> pydict \<Rightarrow> 'w core \<Rightarrow> (exn + pydict) \<times> 'w core" where
  "tool_open_application os args s =
     (let app = get_or args ''application_name'' (PStr []) in
      then_do (activity ''LAUNCHING APP'' [py_escape app] s) (\<lambda>u s1.
      then_do (in_world (open_application os app) s1) (\<lambda>result s2.
      then_do (activity ''APP LAUNCHED''
                 [color (is_success result) ''#ff9944'', py_escape app, message_part result] s2)
        (\<lambda>u s3. (Inr result, s3)))))"

definition tool_close_application :: "'w os \<Rightarrow> pydict \<Rightarrow> 'w core \<Rightarrow> (exn + pydict) \<times> 'w core" where
  "tool_close_application os args s =
     (let app = get_or args ''application_name'' (PStr []) in
      then_do (activity ''CLOSING APP'' [py_escape app] s) (\<lambda>u s1.
      then_do (in_world (close_application os app) s1) (\<lambda>result s2.
      then_do (activity ''APP CLOSED''
                 [color (is_success result) ''#ff6b6b'', py_escape app, message_part result] s2)
        (\<lambda>u s3. (Inr result, s3)))))"

definition tool_open_website :: "'w os \<Rightarrow> pydict \<Rightarrow> 'w core \<Rightarrow> (exn + pydict) \<times> 'w core" where
  "tool_open_website os args s =
     (let url = get_or args ''url'' (PStr []) in
      then_do (in_world (open_website os url) s) (\<lambda>result s1.
      then_do (case display_of url of Inl e \<Rightarrow> (Inl e, s1) | Inr d \<Rightarrow> (Inr d, s1))
        (\<lambda>display s2.
      then_do (activity ''OPEN WEBSITE''
                 [py_escape url, py_escape display, color (is_success result) ''#ff9944'',
                  message_part result] s2)
        (\<lambda>u s3. (Inr result, s3)))))"

definition tool_open_direct_youtube :: "'w os \<Rightarrow> pydict \<Rightarrow> 'w core \<Rightarrow> (exn + pydict) \<times> 'w core" where
  "tool_open_direct_youtube os args s =
     (let query = get_or args ''query'' (PStr []);
          ctype = get_or args ''content_type'' (PStr ''channel'') in
      then_do (in_world (open_direct_youtube os query ctype) s) (\<lambda>result s1.
      then_do (activity ''YOUTUBE SEARCH'' [py_escape query, Inr (py_str ctype)] s1)
        (\<lambda>u s2. (Inr result, s2))))"

definition tool_search_and_open :: "'w os \<Rightarrow> pydict \<Rightarrow> 'w core \<Rightarrow> (exn + pydict) \<times> 'w core" where
  "tool_search_and_open os args s =
     (let query = get_or args ''query'' (PStr []);
          platform = get_or args ''platform'' (PStr ''youtube'') in
      then_do (in_world (search_and_open os query platform) s) (\<lambda>result s1.
      then_do (activity ''SEARCH & OPEN''
                 [Inr (if platform = PStr ''youtube'' then ''#ff4444'' else ''#4488ff''),
                  escaped (py_upper platform), py_escape query] s1)
        (\<lambda>u s2. (Inr result, s2))))"

text \<open>
  \<^verbatim>\<open>
  elif fc.name == "search_file":
      filename = args.get("filename", "")
      self.tool_activity_received.emit("... FILE SEARCH",
          f'<p>... Scanning directories for <span style="color:#00ffff;">{escape(filename)}</span>...'
          f'<br><span style="color:#888; font-size:9pt;">Desktop ... Pictures</span></p>')
      matches = await asyncio.to_thread(self._search_file_sync, filename)
      if matches:
          result = {"status": "success", "message": f"Found {len(matches)} match(es).", "matches": matches, "best_match": matches[0]}
      else:
          result = {"status": "not_found", "message": f"No file matching '{filename}' found."}
      self.file_search_received.emit(filename, matches)
  \<close>
  \<open>_search_file_sync\<close> calls \<open>filename.lower()\<close>; it is reached with a string only,
  since \<open>escape\<close> has raised before on any other value.
\<close>

definition search_result :: "string \<Rightarrow> string list \<Rightarrow> pydict" where
  "search_result filename matches =
     (case matches of
        [] \<Rightarrow> status_msg ''not_found'' (''No file matching '' @ quoted filename @ '' found.'')
      | m # ms \<Rightarrow>
          status_msg ''success'' (''Found '' @ str_int (int (length matches)) @ '' match(es).'')
            @ [(''matches'', PList (map PStr matches)), (''best_match'', PStr m)])"

definition tool_search_file :: "'w os \<Rightarrow> pydict \<Rightarrow> 'w core \<Rightarrow> (exn + pydict) \<times> 'w core" where
  "tool_search_file os args s =
     (let filename = get_or args ''filename'' (PStr []) in
      then_do (activity ''FILE SEARCH'' [py_escape filename] s) (\<lambda>u s1.
        case filename of
          PStr f \<Rightarrow>
            (let matches = search_file_sync os f (world s1)
             in (Inr (search_result f matches), emit (File_search_received f matches) s1))
        | v \<Rightarrow> (Inl (attribute_error ''lower''), s1)))"

text \<open>
  \<^verbatim>\<open>
  elif fc.name == "open_file":
      file_path = args.get("file_path")
      filename = args.get("filename")
      if not file_path and filename:
          self.tool_activity_received.emit("... LOCATING FILE",
              f'<p>... Locating <span style="color:#00ffff;">{escape(filename)}</span>...'
              f'<br><span style="color:#888; font-size:9pt;">Scanning common folders...</span></p>')
          matches = await asyncio.to_thread(self._search_file_sync, filename)
          file_path = matches[0] if matches else None
          if matches:
              self.file_search_received.emit(filename, matches)
      if file_path and os.path.exists(file_path):
          try:
              if sys.platform == "win32":
                  os.startfile(file_path)
              else:
                  subprocess.Popen(["xdg-open", file_path])
              result = {"status": "success", "message": f"Opened '{os.path.basename(file_path)}' successfully."}
              self.file_opened_received.emit(file_path)
          except Exception as e:
              result = {"status": "error", "message": f"Failed to open file: {str(e)}"}
              self.tool_activity_received.emit("... OPEN FAILED",
                  f'<p style="color:#ff6b6b;">... {escape(str(e))}</p>')
      else:
          result = {"status": "not_found", "message": f"File not found: '{file_path or filename}'."}
          self.tool_activity_received.emit("... FILE NOT FOUND",
              f'<p style="color:#ff6b6b;">... Could not locate <span style="color:#00ffff;">{escape(filename or file_path or "?")}</span></p>')
  \<close>
  Launching a path that is not a string raises \<open>TypeError\<close> inside the inner \<open>try\<close>.
\<close>

definition locate_file ::
  "'w os \<Rightarrow> pyval \<Rightarrow> pyval \<Rightarrow> 'w core \<Rightarrow> (exn + pyval) \<times> 'w core" where
  "locate_file os file_path filename s =
     (if \<not> truthy file_path \<and> truthy filename then
        then_do (activity ''LOCATING FILE'' [py_escape filename] s) (\<lambda>u s1.
          case filename of
            PStr f \<Rightarrow>
              (case search_file_sync os f (world s1) of
                 [] \<Rightarrow> (Inr PNone, s1)
               | m # ms \<Rightarrow> (Inr (PStr m), emit (File_search_received f (m # ms)) s1))
          | v \<Rightarrow> (Inl (attribute_error ''lower''), s1))
      else (Inr file_path, s))"

definition open_failed :: "exn \<Rightarrow> 'w core \<Rightarrow> (exn + pydict) \<times> 'w core" where
  "open_failed e s =
     then_do (activity ''OPEN FAILED'' [Inr (escape (exn_str e))] s)
       (\<lambda>u s1. (Inr (status_msg ''error'' (''Failed to open file: '' @ exn_str e)), s1))"

definition open_found :: "'w os \<Rightarrow> pyval \<Rightarrow> 'w core \<Rightarrow> (exn + pydict) \<times> 'w core" where
  "open_found os file_path s =
     (case file_path of
        PStr p \<Rightarrow>
          (case in_world (if os_platform os = ''win32'' then os_startfile os p
                          else os_popen os (Argv [''xdg-open'', p])) s of
             (Some e, s1) \<Rightarrow> open_failed e s1
           | (None, s1) \<Rightarrow>
               (Inr (status_msg ''success''
                       (''Opened '' @ quoted (os_path_basename os p) @ '' successfully.'')),
                emit (File_opened_received p) s1))
      | v \<Rightarrow> open_failed (type_error ''expected str, bytes or os.PathLike object'') s)"

definition tool_open_file :: "'w os \<Rightarrow> pydict \<Rightarrow> 'w core \<Rightarrow> (exn + pydict) \<times> 'w core" where
  "tool_open_file os args s =
     (let filename = get args ''filename'' in
      then_do (locate_file os (get args ''file_path'') filename s) (\<lambda>file_path s1.
      then_do (if truthy file_path then (exists_val os (world s1) file_path, s1)
               else (Inr False, s1))
        (\<lambda>found s2.
           if found then open_found os file_path s2
           else
             then_do (activity ''FILE NOT FOUND''
                        [py_escape (or_val filename (or_val file_path (PStr ''?'')))] s2)
               (\<lambda>u s3.
                  (Inr (status_msg ''not_found''
                          (''File not found: '' @ quoted (py_str (or_val file_path filename))
                             @ ''.'')), s3)))))"

text \<open>
  \<^verbatim>\<open>
  elif fc.name == "move_file":
      src = args.get("source_path", "")
      dst = args.get("destination_path", "")
      src_name = os.path.basename(src)
      self.tool_activity_received.emit("... MOVING FILE",
          f'<p>... <span style="color:#00ffff;">{escape(src_name)}</span>'
          f'<br><span style="color:#888; font-size:9pt;">'
          f'{escape(src)}<br>&#8595; {escape(dst)}</span></p>')
      result = self._move_file(source_path=src, destination_path=dst)
      ok = result.get("status") == "success"
      color = "#90EE90" if ok else "#ff6b6b"
      icon = ... if ok else ...
      dest_final = result.get("destination", dst)
      self.tool_activity_received.emit("... FILE MOVED",
          f'<p style="color:{color};">{icon} <span style="color:#00ffff;">{escape(src_name)}</span>'
          f'<br><span style="color:#888; font-size:9pt;">&#8594; {escape(dest_final)}</span></p>')
  \<close>
\<close>

definition tool_move_file :: "'w os \<Rightarrow> pydict \<Rightarrow> 'w core \<Rightarrow> (exn + pydict) \<times> 'w core" where
  "tool_move_file os args s =
     (let src = get_or args ''source_path'' (PStr []);
          dst = get_or args ''destination_path'' (PStr []) in
      then_do (case py_basename os src of Inl e \<Rightarrow> (Inl e, s) | Inr n \<Rightarrow> (Inr n, s))
        (\<lambda>src_name s1.
      then_do (activity ''MOVING FILE'' [py_escape src_name, py_escape src, py_escape dst] s1)
        (\<lambda>u s2.
      then_do (in_world (move_file os src dst) s2) (\<lambda>result s3.
      then_do (activity ''FILE MOVED''
                 [color (is_success result) ''#ff6b6b'', py_escape src_name,
                  py_escape (get_or result ''destination'' dst)] s3)
        (\<lambda>u s4. (Inr result, s4))))))"

text \<open>
  The chain of \<open>if fc.name == ...\<close>, with \<open>result = {}\<close> for a name that has no branch,
  and the statement after it:
  \<^verbatim>\<open>
  for fc in chunk.tool_call.function_calls:
      args, result = fc.args, {}
      ...
      function_responses.append({"id": fc.id, "name": fc.name, "response": result})
  await self.session.send_tool_response(function_responses=function_responses)
  continue
  \<close>
\<close>

definition call_tool :: "'w os \<Rightarrow> function_call \<Rightarrow> 'w core \<Rightarrow> (exn + pydict) \<times> 'w core" where
  "call_tool os fc s =
     (let name = fc_name fc; args = fc_args fc in
      if name = ''create_folder'' then tool_create_folder os args s
      else if name = ''create_file'' then tool_create_file os args s
      else if name = ''edit_file'' then tool_edit_file os args s
      else if name = ''list_files'' then tool_list_files os args s
      else if name = ''read_file'' then tool_read_file os args s
      else if name = ''open_application'' then tool_open_application os args s
      else if name = ''close_application'' then tool_close_application os args s
      else if name = ''open_website'' then tool_open_website os args s
      else if name = ''open_direct_youtube'' then tool_open_direct_youtube os args s
      else if name = ''search_and_open'' then tool_search_and_open os args s
      else if name = ''search_file'' then tool_search_file os args s
      else if name = ''open_file'' then tool_open_file os args s
      else if name = ''move_file'' then tool_move_file os args s
      else (Inr [], s))"

text \<open>
  One tool call: its response, and \<open>file_list_data\<close> as the branch of \<open>list_files\<close>
  leaves it.
\<close>

definition answer_call ::
  "'w os \<Rightarrow> function_call \<Rightarrow> (pyval \<times> pyval) option \<Rightarrow> 'w core
     \<Rightarrow> (exn + tool_response \<times> (pyval \<times> pyval) option) \<times> 'w core" where
  "answer_call os fc fld s =
     then_do (call_tool os fc s) (\<lambda>result s1.
       (Inr (\<lparr>tr_id = fc_id fc, tr_name = fc_name fc, tr_response = result\<rparr>,
             if fc_name fc = ''list_files'' \<and> is_success result
             then Some (get result ''directory_path'', get result ''files'') else fld),
        s1))"

fun answer_calls ::
  "'w os \<Rightarrow> function_call list \<Rightarrow> tool_response list \<Rightarrow> (pyval \<times> pyval) option \<Rightarrow> 'w core
     \<Rightarrow> (exn + tool_response list \<times> (pyval \<times> pyval) option) \<times> 'w core" where
  "answer_calls os [] responses fld s = (Inr (responses, fld), s)"
| "answer_calls os (fc # fcs) responses fld s =
     (case answer_call os fc fld s of
        (Inl e, s1) \<Rightarrow> (Inl e, s1)
      | (Inr (r, fld1), s1) \<Rightarrow> answer_calls os fcs (responses @ [r]) fld1 s1)"

definition handle_tool_calls ::
  "'w os \<Rightarrow> function_call list \<Rightarrow> (pyval \<times> pyval) option \<Rightarrow> 'w core
     \<Rightarrow> (exn + (pyval \<times> pyval) option) \<times> 'w core" where
  "handle_tool_calls os fcs fld s =
     (case answer_calls os fcs [] fld s of
        (Inl e, s1) \<Rightarrow> (Inl e, s1)
      | (Inr (responses, fld1), s1) \<Rightarrow>
          (case session_call_on (Send_tool_response responses) s1 of
             Inl e \<Rightarrow> (Inl e, s1)
           | Inr s2 \<Rightarrow> (Inr fld1, s2)))"
section \<open>Response stream: turns\<close>

text \<open>
  \<^verbatim>\<open>
  async def receive_text(self):
      while self.is_running:
          try:
              turn_urls, turn_code_content, turn_code_result, file_list_data = set(), "", "", None
              turn = self.session.receive()
              async for chunk in turn:
                  if chunk.tool_call and chunk.tool_call.function_calls:
                      function_responses = []
                      for fc in chunk.tool_call.function_calls:
                          ...
                      await self.session.send_tool_response(function_responses=function_responses)
                      continue
                  if chunk.server_content:
                      if hasattr(chunk.server_content, 'grounding_metadata') and chunk.server_content.grounding_metadata:
                          for g_chunk in chunk.server_content.grounding_metadata.grounding_chunks:
                              if g_chunk.web and g_chunk.web.uri: turn_urls.add(g_chunk.web.uri)
                      if chunk.server_content.model_turn:
                          for part in chunk.server_content.model_turn.parts:
                              if hasattr(part, 'executable_code') and part.executable_code: turn_code_content = part.executable_code.code
                              if hasattr(part, 'code_execution_result') and part.code_execution_result: turn_code_result = part.code_execution_result.output
                              if hasattr(part, 'inline_data') and part.inline_data:
                                  await self.audio_in_queue_player.put(part.inline_data.data)
                                  self.speaking_started.emit()
                              if hasattr(part, 'text') and part.text:
                                  self.text_received.emit(part.text)
              if file_list_data: self.file_list_received.emit(file_list_data[0], file_list_data[1])
              elif turn_code_content: self.code_being_executed.emit(turn_code_content, turn_code_result)
              elif turn_urls: self.search_results_received.emit(list(turn_urls))
              else:
                  self.code_being_executed.emit("", ""); self.search_results_received.emit([]); self.file_list_received.emit("", [])
              self.end_of_turn.emit()
              self.speaking_stopped.emit()
          except Exception:
              if not self.is_running: break
              traceback.print_exc()
  \<close>
  A part of a model turn: the code of its executable code, the output of its code
  execution result, the data of its inline data and its text, each absent or present.
  A server content: its grounding metadata, absent or with grounding chunks that are
  \<open>None\<close> or a list (each chunk with the URI of its web source or none), and its model
  turn, absent or with parts that are \<open>None\<close> or a list. A chunk: its tool calls (none
  when \<open>chunk.tool_call\<close> or its \<open>function_calls\<close> is empty) and its server content.
\<close>

record part =
  part_executable_code :: "string option"
  part_code_execution_result :: "string option"
  part_inline_data :: "bytes option"
  part_text :: "string option"

record server_content =
  sc_grounding_chunks :: "string option list option option"
  sc_model_turn_parts :: "part list option option"

record chunk =
  chunk_function_calls :: "function_call list"
  chunk_server_content :: "server_content option"

text \<open>The locals of a turn. The set of URLs is emitted as a list in some order.\<close>

record turn_state =
  turn_urls :: "string set"
  turn_code_content :: string
  turn_code_result :: string
  file_list_data :: "(pyval \<times> pyval) option"

definition new_turn :: turn_state where
  "new_turn = \<lparr>turn_urls = {}, turn_code_content = [], turn_code_result = [],
               file_list_data = None\<rparr>"

definition process_part :: "part \<Rightarrow> turn_state \<times> 'w core \<Rightarrow> turn_state \<times> 'w core" where
  "process_part p ts =
     (case ts of (t, s) \<Rightarrow>
        let t1 = (case part_executable_code p of
                    Some code \<Rightarrow> t\<lparr>turn_code_content := code\<rparr> | None \<Rightarrow> t);
            t2 = (case part_code_execution_result p of
                    Some output \<Rightarrow> t1\<lparr>turn_code_result := output\<rparr> | None \<Rightarrow> t1);
            s1 = (case part_inline_data p of
                    Some d \<Rightarrow>
                      emit Speaking_started
                        (s\<lparr>audio_in_queue_player := audio_in_queue_player s @ [d]\<rparr>)
                  | None \<Rightarrow> s);
            s2 = (case part_text p of
                    Some x \<Rightarrow> if x \<noteq> [] then emit (Text_received x) s1 else s1
                  | None \<Rightarrow> s1)
        in (t2, s2))"

definition not_iterable :: exn where
  "not_iterable = Exn ''TypeError'' ''NoneType object is not iterable''"

definition add_urls :: "string option list \<Rightarrow> turn_state \<Rightarrow> turn_state" where
  "add_urls gs t =
     t\<lparr>turn_urls := turn_urls t \<union> set (concat (map (\<lambda>g. case g of
           Some uri \<Rightarrow> if uri \<noteq> [] then [uri] else [] | None \<Rightarrow> []) gs))\<rparr>"

definition process_server_content ::
  "server_content \<Rightarrow> turn_state \<Rightarrow> 'w core \<Rightarrow> (exn + turn_state) \<times> 'w core" where
  "process_server_content sc t s =
     (case (case sc_grounding_chunks sc of
              None \<Rightarrow> Inr t
            | Some None \<Rightarrow> Inl not_iterable
            | Some (Some gs) \<Rightarrow> Inr (add_urls gs t)) of
        Inl e \<Rightarrow> (Inl e, s)
      | Inr t1 \<Rightarrow>
          (case sc_model_turn_parts sc of
             None \<Rightarrow> (Inr t1, s)
           | Some None \<Rightarrow> (Inl not_iterable, s)
           | Some (Some parts) \<Rightarrow>
               (case foldl (\<lambda>ts p. process_part p ts) (t1, s) parts of
                  (t2, s2) \<Rightarrow> (Inr t2, s2))))"

definition process_chunk ::
  "'w os \<Rightarrow> chunk \<Rightarrow> turn_state \<Rightarrow> 'w core \<Rightarrow> (exn + turn_state) \<times> 'w core" where
  "process_chunk os c t s =
     (if chunk_function_calls c \<noteq> [] then
        (case handle_tool_calls os (chunk_function_calls c) (file_list_data t) s of
           (Inl e, s1) \<Rightarrow> (Inl e, s1)
         | (Inr fld, s1) \<Rightarrow> (Inr (t\<lparr>file_list_data := fld\<rparr>), s1))
      else
        (case chunk_server_content c of
           None \<Rightarrow> (Inr t, s)
         | Some sc \<Rightarrow> process_server_content sc t s))"

fun process_chunks ::
  "'w os \<Rightarrow> chunk list \<Rightarrow> turn_state \<Rightarrow> 'w core \<Rightarrow> (exn + turn_state) \<times> 'w core" where
  "process_chunks os [] t s = (Inr t, s)"
| "process_chunks os (c # cs) t s =
     (case process_chunk os c t s of
        (Inl e, s1) \<Rightarrow> (Inl e, s1)
      | (Inr t1, s1) \<Rightarrow> process_chunks os cs t1 s1)"

text \<open>What follows the \<open>async for\<close> when the stream of the turn has ended.\<close>

definition activity_signals :: "turn_state \<Rightarrow> signal list" where
  "activity_signals t =
     (case file_list_data t of
        Some (directory_path, files) \<Rightarrow> [File_list_received directory_path files]
      | None \<Rightarrow>
          if turn_code_content t \<noteq> []
          then [Code_being_executed (turn_code_content t) (turn_code_result t)]
          else if turn_urls t \<noteq> {} then [Search_results_received (turn_urls t)]
          else [Code_being_executed [] [], Search_results_received {},
                File_list_received (PStr []) (PList [])])"

definition finish_turn :: "turn_state \<Rightarrow> 'w core \<Rightarrow> 'w core" where
  "finish_turn t s =
     s\<lparr>signals := signals s @ activity_signals t @ [End_of_turn, Speaking_stopped]\<rparr>"

text \<open>
  One pass through the body of \<open>while\<close>: the chunks the stream of the turn delivers,
  then its end, or the exception with which the stream breaks off. An exception, from
  the stream or from the handling of a chunk, is caught; the signals emitted and the
  changes made before it stay.
\<close>

definition receive_turn :: "'w os \<Rightarrow> chunk list \<Rightarrow> exn option \<Rightarrow> 'w core \<Rightarrow> 'w core" where
  "receive_turn os chunks stream_error s =
     (case process_chunks os chunks new_turn s of
        (Inl e, s1) \<Rightarrow> s1
      | (Inr t, s1) \<Rightarrow>
          (case stream_error of
             Some e \<Rightarrow> s1
           | None \<Rightarrow> finish_turn t s1))"

fun receive_text :: "'w os \<Rightarrow> (chunk list \<times> exn option) list \<Rightarrow> 'w core \<Rightarrow> 'w core" where
  "receive_text os [] s = s"
| "receive_text os ((chunks, stream_error) # turns) s =
     (if is_running s then receive_text os turns (receive_turn os chunks stream_error s)
      else s)"





definition is_text_signal :: "signal \<Rightarrow> bool" where
  "is_text_signal sg = (case sg of Text_received x \<Rightarrow> True | _ \<Rightarrow> False)"

definition is_activity_signal :: "signal \<Rightarrow> bool" where
  "is_activity_signal sg =
     (case sg of
        File_list_received a b \<Rightarrow> True
      | Code_being_executed a b \<Rightarrow> True
      | Search_results_received u \<Rightarrow> True
      | _ \<Rightarrow> False)"



definition tool_chunk :: "function_call list \<Rightarrow> chunk" where
  "tool_chunk fcs = \<lparr>chunk_function_calls = fcs, chunk_server_content = None\<rparr>"
text \<open>
  \<open>texts_added xs s s'\<close>: from \<open>s\<close> to \<open>s'\<close> the fragment queue of the speech bridge has
  not changed, and the signals emitted in between carry, as text, exactly \<open>xs\<close> in order.
\<close>

definition texts_added :: "string list \<Rightarrow> 'w core \<Rightarrow> 'w core \<Rightarrow> bool" where
  "texts_added xs s s' =
     (response_queue_tts s' = response_queue_tts s
      \<and> (\<exists>new. signals s' = signals s @ new
            \<and> filter is_text_signal new = map Text_received xs))"

definition sample_session :: "unit core" where
  "sample_session = (init_core ''none'' ())\<lparr>session := Some []\<rparr>"


definition streaming_signal :: "signal \<Rightarrow> bool" where
  "streaming_signal sg = (sg = Speaking_started \<or> is_text_signal sg)"

text \<open>
  \<open>streamed t s t' s'\<close>: the locals that decide the activity signal are the same in \<open>t\<close>
  and \<open>t'\<close>, and from \<open>s\<close> to \<open>s'\<close> only streaming signals were emitted.
\<close>

definition streamed :: "turn_state \<Rightarrow> 'w core \<Rightarrow> turn_state \<Rightarrow> 'w core \<Rightarrow> bool" where
  "streamed t s t' s' =
     (turn_code_content t' = turn_code_content t \<and> turn_urls t' = turn_urls t
      \<and> file_list_data t' = file_list_data t
      \<and> (\<exists>new. signals s' = signals s @ new \<and> list_all streaming_signal new))"

text \<open>
  Arguments as the declared schema of the tools has them: every value is a string.
  \<open>untouched s s'\<close>: the session has received nothing between \<open>s\<close> and \<open>s'\<close>.
\<close>

definition string_args :: "pydict \<Rightarrow> bool" where
  "string_args args = list_all (\<lambda>kv. case snd kv of PStr t \<Rightarrow> True | _ \<Rightarrow> False) args"

definition untouched :: "'w core \<Rightarrow> 'w core \<Rightarrow> bool" where
  "untouched s s' = (session s' = session s)"

text \<open>\<open>answered s r\<close>: the step from \<open>s\<close> has returned a value and left the session alone.\<close>

definition answered :: "'w core \<Rightarrow> (exn + 'a) \<times> 'w core \<Rightarrow> bool" where
  "answered s r = (\<exists>d s1. r = (Inr d, s1) \<and> untouched s s1)"


section \<open>The text task between its suspension points\<close>

text \<open>
  \<open>process_text_input_queue\<close> suspends in two places: in
  \<open>await self.text_input_queue.get()\<close> and in
  \<open>await self.session.send_client_content(...)\<close>. Between two suspensions the coroutine
  runs without interruption; while it is suspended the other tasks run. A step of the text
  task leads from one suspension to the next: from \<open>Text_get\<close>, where it waits at the
  head of the loop, the taking of an item, the test of the sentinel and of the session and
  the emptying of the two queues lead to \<open>Text_send turn\<close>, where the call that sends
  \<open>turn\<close> has been made and has not yet returned; from there the return of that call
  leads back to \<open>Text_get\<close>.
\<close>

datatype text_pc = Text_get | Text_send session_call | Text_done

fun text_task_step :: "text_pc \<times> 'w core \<Rightarrow> text_pc \<times> 'w core" where
  "text_task_step (Text_get, s) =
     (if \<not> is_running s then (Text_done, s)
      else case text_input_queue s of
        [] \<Rightarrow> (Text_get, s)
      | None # rest \<Rightarrow> (Text_done, s\<lparr>text_input_queue := rest\<rparr>)
      | Some text # rest \<Rightarrow>
          if session (s\<lparr>text_input_queue := rest\<rparr>) \<noteq> None
          then (Text_send (user_turn text), purge_speech_queues (s\<lparr>text_input_queue := rest\<rparr>))
          else (Text_get, s\<lparr>text_input_queue := rest\<rparr>))"
| "text_task_step (Text_send turn, s) = (Text_get, session_send turn s)"
| "text_task_step (Text_done, s) = (Text_done, s)"

text \<open>
  What the other tasks may do to the two speech queues while the text task is suspended:
  put a fragment (or the sentinel) into the fragment queue, or a buffer into the
  playback queue.
\<close>

datatype speech_put = Put_fragment "string option" | Put_audio bytes

fun speech_put_step :: "'w core \<Rightarrow> speech_put \<Rightarrow> 'w core" where
  "speech_put_step s (Put_fragment f) = s\<lparr>response_queue_tts := response_queue_tts s @ [f]\<rparr>"
| "speech_put_step s (Put_audio b) = s\<lparr>audio_in_queue_player := audio_in_queue_player s @ [b]\<rparr>"

fun fragments_put :: "speech_put list \<Rightarrow> string option list" where
  "fragments_put [] = []"
| "fragments_put (Put_fragment f # ps) = f # fragments_put ps"
| "fragments_put (Put_audio b # ps) = fragments_put ps"

fun audio_put :: "speech_put list \<Rightarrow> bytes list" where
  "audio_put [] = []"
| "audio_put (Put_fragment f # ps) = audio_put ps"
| "audio_put (Put_audio b # ps) = b # audio_put ps"

section \<open>Properties\<close>

lemma drain_empty [simp]: "drain q = []"
  by (induction q) auto

text \<open>
  Claim C10. The video mode stays one of camera, screen and none: from a valid mode, any
  sequence of mode-switch calls, with any strings, ends in a valid mode; a call with a
  string outside the three leaves the whole state unchanged, so it emits no mode-changed
  signal; a switch to none clears the latest frame.
\<close>

theorem set_video_mode_keeps_valid:
  "(video_mode s \<in> set video_modes \<longrightarrow>
      video_mode (foldl (\<lambda>t m. set_video_mode m t) s ms) \<in> set video_modes)
   \<and> (mode \<notin> set video_modes \<longrightarrow> set_video_mode mode s = s)
   \<and> latest_frame (set_video_mode ''none'' s) = None"
proof -
  have step: "video_mode t \<in> set video_modes \<Longrightarrow>
      video_mode (set_video_mode m t) \<in> set video_modes" for m and t :: "'a core"
    by (simp add: set_video_mode_def emit_def Let_def)
  have "video_mode s \<in> set video_modes \<Longrightarrow>
      video_mode (foldl (\<lambda>t m. set_video_mode m t) s ms) \<in> set video_modes"
  proof (induction ms arbitrary: s)
    case Nil
    then show ?case by simp
  next
    case (Cons m ms)
    from Cons.prems have "video_mode (set_video_mode m s) \<in> set video_modes"
      by (rule step)
    then show ?case using Cons.IH by simp
  qed
  moreover have "mode \<notin> set video_modes \<Longrightarrow> set_video_mode mode s = s"
    by (simp add: set_video_mode_def)
  moreover have "latest_frame (set_video_mode ''none'' s) = None"
    by (simp add: set_video_mode_def emit_def video_modes_def)
  ultimately show ?thesis by blast
qed

theorem set_video_mode_keeps_valid_witness:
  "video_mode (init_core ''camera'' ()) \<in> set video_modes
   \<and> ''webcam'' \<notin> set video_modes
   \<and> video_mode (foldl (\<lambda>t m. set_video_mode m t) (init_core ''camera'' ())
        [''screen'', ''webcam'', ''none'']) \<in> set video_modes
   \<and> set_video_mode ''webcam'' (init_core ''camera'' ()) = init_core ''camera'' ()"
  using set_video_mode_keeps_valid
    [of "init_core ''camera'' ()" "[''screen'', ''webcam'', ''none'']" "''webcam''"]
  by (simp add: video_modes_def init_core_def)

lemma speech_puts_append:
  "fragments_put (ps @ qs) = fragments_put ps @ fragments_put qs"
  "audio_put (ps @ qs) = audio_put ps @ audio_put qs"
  by (induction ps rule: fragments_put.induct) simp_all

text \<open>
  Claim C5. When the text task takes a text from the text-input queue while running and
  with an open session, it empties the fragment queue and the playback queue before the
  text is forwarded. The step from the wait at the head of the loop ends at the suspension
  inside the sending call: there both queues are empty and the session has not received
  the turn. Whatever the other tasks put into the two queues during that suspension, the
  next step appends the turn to the session and removes nothing: afterwards the queues
  hold exactly what was put during the suspension, and nothing that was queued before the
  input. The two steps together are the handling of the item in the loop.
\<close>

theorem text_input_purges_before_forwarding:
  assumes "is_running s" and "text_input_queue s = Some text # rest"
    and "session s = Some log"
  shows "text_task_step (Text_get, s)
           = (Text_send (user_turn text),
              s\<lparr>text_input_queue := rest, response_queue_tts := [],
                audio_in_queue_player := []\<rparr>)
         \<and> session (snd (text_task_step (Text_get, s))) = Some log
         \<and> text_task_step (Text_send (user_turn text),
               foldl speech_put_step (snd (text_task_step (Text_get, s))) puts)
             = (Text_get,
                s\<lparr>text_input_queue := rest, response_queue_tts := fragments_put puts,
                  audio_in_queue_player := audio_put puts,
                  session := Some (log @ [user_turn text])\<rparr>)
         \<and> process_text_item text (s\<lparr>text_input_queue := rest\<rparr>)
             = snd (text_task_step (text_task_step (Text_get, s)))
         \<and> process_text_input_queue s
             = process_text_input_queue (snd (text_task_step (text_task_step (Text_get, s))))"
proof -
  let ?mid = "s\<lparr>text_input_queue := rest, response_queue_tts := [],
                audio_in_queue_player := []\<rparr>"
  have first: "text_task_step (Text_get, s) = (Text_send (user_turn text), ?mid)"
    using assms by (simp add: purge_speech_queues_def)
  have unsent: "session (snd (text_task_step (Text_get, s))) = Some log"
    using assms(3) unfolding first by simp
  have during: "foldl speech_put_step ?mid puts
      = s\<lparr>text_input_queue := rest, response_queue_tts := fragments_put puts,
          audio_in_queue_player := audio_put puts\<rparr>"
  proof (induction puts rule: rev_induct)
    case Nil
    show ?case by simp
  next
    case (snoc p ps)
    show ?case by (cases p) (simp_all add: snoc speech_puts_append)
  qed
  have second: "text_task_step (Text_send (user_turn text),
               foldl speech_put_step (snd (text_task_step (Text_get, s))) puts)
             = (Text_get,
                s\<lparr>text_input_queue := rest, response_queue_tts := fragments_put puts,
                  audio_in_queue_player := audio_put puts,
                  session := Some (log @ [user_turn text])\<rparr>)"
    using assms(3) unfolding first snd_conv during by (simp add: session_send_def)
  have item: "process_text_item text (s\<lparr>text_input_queue := rest\<rparr>)
             = snd (text_task_step (text_task_step (Text_get, s)))"
    using assms(3) unfolding first
    by (simp add: process_text_item_def purge_speech_queues_def session_send_def)
  have "process_text_input_queue s
      = process_text_input_queue (process_text_item text (s\<lparr>text_input_queue := rest\<rparr>))"
    using assms(1,2) by (subst process_text_input_queue.simps) simp
  with first unsent second item show ?thesis by simp
qed

theorem text_input_purges_before_forwarding_witness:
  "text_task_step (Text_get,
     (init_core ''none'' ())\<lparr>session := Some [], text_input_queue := [Some ''hello''],
        response_queue_tts := [Some ''stale''], audio_in_queue_player := [[1, 2]]\<rparr>)
   = (Text_send (user_turn ''hello''),
      (init_core ''none'' ())\<lparr>session := Some [], text_input_queue := [],
        response_queue_tts := [], audio_in_queue_player := []\<rparr>)
   \<and> text_task_step (Text_send (user_turn ''hello''),
       foldl speech_put_step
         ((init_core ''none'' ())\<lparr>session := Some [], text_input_queue := [],
            response_queue_tts := [], audio_in_queue_player := []\<rparr>)
         [Put_audio [7], Put_fragment (Some ''new'')])
     = (Text_get,
        (init_core ''none'' ())\<lparr>session := Some [user_turn ''hello''], text_input_queue := [],
          response_queue_tts := [Some ''new''], audio_in_queue_player := [[7]]\<rparr>)
   \<and> process_text_input_queue
       ((init_core ''none'' ())\<lparr>session := Some [], text_input_queue := [Some ''hello''],
          response_queue_tts := [Some ''stale''], audio_in_queue_player := [[1, 2]]\<rparr>)
     = (Awaiting,
        (init_core ''none'' ())\<lparr>session := Some [user_turn ''hello''], text_input_queue := [],
          response_queue_tts := [], audio_in_queue_player := []\<rparr>)"
proof -
  let ?s = "(init_core ''none'' ())\<lparr>session := Some [], text_input_queue := [Some ''hello''],
        response_queue_tts := [Some ''stale''], audio_in_queue_player := [[1, 2]]\<rparr>"
  have run: "is_running ?s" and queue: "text_input_queue ?s = Some ''hello'' # []"
    and sess: "session ?s = Some []"
    by (simp_all add: init_core_def)
  note fact = text_input_purges_before_forwarding
    [of ?s "''hello''" "[]" "[]" "[Put_audio [7], Put_fragment (Some ''new'')]",
      OF run queue sess]
  have a: "text_task_step (Text_get, ?s)
      = (Text_send (user_turn ''hello''),
         (init_core ''none'' ())\<lparr>session := Some [], text_input_queue := [],
           response_queue_tts := [], audio_in_queue_player := []\<rparr>)"
    using fact by (simp add: init_core_def)
  have b: "text_task_step (Text_send (user_turn ''hello''),
       foldl speech_put_step
         ((init_core ''none'' ())\<lparr>session := Some [], text_input_queue := [],
            response_queue_tts := [], audio_in_queue_player := []\<rparr>)
         [Put_audio [7], Put_fragment (Some ''new'')])
     = (Text_get,
        (init_core ''none'' ())\<lparr>session := Some [user_turn ''hello''], text_input_queue := [],
          response_queue_tts := [Some ''new''], audio_in_queue_player := [[7]]\<rparr>)"
    by (simp add: init_core_def session_send_def)
  have c: "process_text_input_queue ?s
     = (Awaiting,
        (init_core ''none'' ())\<lparr>session := Some [user_turn ''hello''], text_input_queue := [],
          response_queue_tts := [], audio_in_queue_player := []\<rparr>)"
    using fact
    by (simp add: init_core_def session_send_def purge_speech_queues_def
        process_text_input_queue.simps)
  from a b c show ?thesis by simp
qed

text \<open>
  Claim C9. When the text taken from the text-input queue is the empty string, the user
  turn the open session receives has the single part ".".
\<close>

theorem empty_text_is_sent_as_dot:
  assumes "is_running s" and "text_input_queue s = Some [] # rest"
    and "session s = Some log"
  shows "session (process_text_item [] (s\<lparr>text_input_queue := rest\<rparr>))
           = Some (log @ [Send_client_content [(''user'', [''.''])]])
         \<and> process_text_input_queue s
           = process_text_input_queue (process_text_item [] (s\<lparr>text_input_queue := rest\<rparr>))"
proof -
  have "session (process_text_item [] (s\<lparr>text_input_queue := rest\<rparr>))
      = Some (log @ [Send_client_content [(''user'', [''.''])]])"
    using assms(3)
    by (simp add: process_text_item_def session_send_def purge_speech_queues_def user_turn_def)
  moreover have "process_text_input_queue s
      = process_text_input_queue (process_text_item [] (s\<lparr>text_input_queue := rest\<rparr>))"
    using assms(1,2) by (subst process_text_input_queue.simps) simp
  ultimately show ?thesis by simp
qed

theorem empty_text_is_sent_as_dot_witness:
  "session (process_text_item []
      ((init_core ''none'' ())\<lparr>session := Some [], text_input_queue := []\<rparr>))
    = Some [Send_client_content [(''user'', [''.''])]]"
proof -
  let ?s = "(init_core ''none'' ())\<lparr>session := Some [], text_input_queue := [Some []]\<rparr>"
  have run: "is_running ?s" and queue: "text_input_queue ?s = Some [] # []"
    and sess: "session ?s = Some []"
    by (simp_all add: init_core_def)
  from empty_text_is_sent_as_dot [OF run queue sess] show ?thesis
    by simp
qed

lemma forward_item:
  assumes "session s = Some log" and "decodable dec it"
  shows "forward_realtime dec (item_msg it) s
           = Inr (s\<lparr>session := Some (log @ [realtime_call dec it])\<rparr>)"
  using assms
  by (cases it)
    (auto simp: forward_realtime_def subscript_def session_call_on_def decodable_def
          split: sum.splits)

lemma mux_run_invariant:
  assumes "is_running s" and "session s = Some (log @ map (realtime_call dec) sent)"
    and "out_queue_gemini s = map item_msg pending"
    and "\<forall>it \<in> set (pending @ puts_of evs). decodable dec it"
  shows "(\<forall>e. mux_run dec evs s \<noteq> Failed e)
       \<and> (\<forall>s'. mux_run dec evs s = Done s' \<longrightarrow>
            (\<exists>sent' rest. session s' = Some (log @ map (realtime_call dec) sent')
               \<and> out_queue_gemini s' = map item_msg rest \<and> is_running s'
               \<and> sent' @ rest = sent @ pending @ puts_of evs))"
  using assms
proof (induction evs arbitrary: s sent pending)
  case Nil
  then show ?case by auto
next
  case (Cons ev evs)
  show ?case
  proof (cases ev)
    case (Put it)
    show ?thesis
    proof (cases "length (out_queue_gemini s) < maxsize")
      case True
      let ?s1 = "s\<lparr>out_queue_gemini := out_queue_gemini s @ [item_msg it]\<rparr>"
      have "is_running ?s1" "session ?s1 = Some (log @ map (realtime_call dec) sent)"
        "out_queue_gemini ?s1 = map item_msg (pending @ [it])"
        "\<forall>i \<in> set ((pending @ [it]) @ puts_of evs). decodable dec i"
        using Cons.prems Put by auto
      from Cons.IH [OF this] show ?thesis using Put True by simp
    next
      case False
      then show ?thesis using Put by simp
    qed
  next
    case Consume
    show ?thesis
    proof (cases pending)
      case Nil
      then show ?thesis using Consume Cons.prems by simp
    next
      case (Cons it rest)
      let ?s1 = "s\<lparr>out_queue_gemini := map item_msg rest\<rparr>"
      let ?s2 = "?s1\<lparr>session := Some ((log @ map (realtime_call dec) sent) @ [realtime_call dec it])\<rparr>"
      have dec_it: "decodable dec it" using Cons.prems(4) Cons by simp
      have fwd: "forward_realtime dec (item_msg it) ?s1 = Inr ?s2"
        using forward_item [of ?s1 "log @ map (realtime_call dec) sent" dec it] Cons.prems(2) dec_it
        by simp
      have "is_running ?s2" "session ?s2 = Some (log @ map (realtime_call dec) (sent @ [it]))"
        "out_queue_gemini ?s2 = map item_msg rest"
        "\<forall>i \<in> set (rest @ puts_of evs). decodable dec i"
        using Cons.prems Cons Consume by auto
      from Cons.IH [OF this] show ?thesis
        using Consume Cons Cons.prems(1,3) fwd by simp
    qed
  qed
qed

lemma send_realtime_drains:
  assumes "is_running s" and "session s = Some log"
    and "out_queue_gemini s = map item_msg pending"
    and "\<forall>it \<in> set pending. decodable dec it"
  shows "send_realtime dec s
       = (Awaiting, s\<lparr>out_queue_gemini := [],
                       session := Some (log @ map (realtime_call dec) pending)\<rparr>)"
  using assms
proof (induction pending arbitrary: s log)
  case Nil
  then show ?case by (subst send_realtime.simps) simp
next
  case (Cons it rest)
  let ?s1 = "s\<lparr>out_queue_gemini := map item_msg rest\<rparr>"
  let ?s2 = "?s1\<lparr>session := Some (log @ [realtime_call dec it])\<rparr>"
  have fwd: "forward_realtime dec (item_msg it) ?s1 = Inr ?s2"
    using forward_item [of ?s1 log dec it] Cons.prems by simp
  have "is_running ?s2" "session ?s2 = Some (log @ [realtime_call dec it])"
    "out_queue_gemini ?s2 = map item_msg rest" "\<forall>i \<in> set rest. decodable dec i"
    using Cons.prems by auto
  from Cons.IH [OF this] show ?case
    using Cons.prems(1,3) fwd by (subst send_realtime.simps) (simp add: Let_def)
qed

text \<open>
  Claim C4. While the orchestrator is running, whatever the interleaving of the producers'
  puts with the consumer's iterations, the consumer never fails, the session has received
  the calls for a prefix \<open>sent\<close> of the submitted items and the queue holds the remaining
  items \<open>rest\<close>, in the order of submission; letting the consumer run from there until it
  waits on the empty queue, the session has received the call for every submitted item,
  once each and in the order of submission: audio through the audio primitive, images
  through the video primitive with the payload decoded from base64.
\<close>

theorem outbound_items_forwarded_fifo_once:
  assumes "is_running s" and "session s = Some log"
    and "out_queue_gemini s = map item_msg pending"
    and "\<forall>it \<in> set (pending @ puts_of evs). decodable dec it"
  shows "(\<forall>e. mux_run dec evs s \<noteq> Failed e)
       \<and> (\<forall>s'. mux_run dec evs s = Done s' \<longrightarrow>
            (\<exists>sent rest. session s' = Some (log @ map (realtime_call dec) sent)
               \<and> out_queue_gemini s' = map item_msg rest
               \<and> sent @ rest = pending @ puts_of evs
               \<and> send_realtime dec s'
                   = (Awaiting, s'\<lparr>out_queue_gemini := [],
                        session := Some (log @ map (realtime_call dec) (pending @ puts_of evs))\<rparr>)))"
proof -
  have start: "session s = Some (log @ map (realtime_call dec) [])"
    using assms(2) by simp
  note inv = mux_run_invariant [OF assms(1) start assms(3,4)]
  have "\<exists>sent rest. session s' = Some (log @ map (realtime_call dec) sent)
               \<and> out_queue_gemini s' = map item_msg rest
               \<and> sent @ rest = pending @ puts_of evs
               \<and> send_realtime dec s'
                   = (Awaiting, s'\<lparr>out_queue_gemini := [],
                        session := Some (log @ map (realtime_call dec) (pending @ puts_of evs))\<rparr>)"
    if run: "mux_run dec evs s = Done s'" for s'
  proof -
    from inv run obtain sent rest where
      st: "session s' = Some (log @ map (realtime_call dec) sent)"
        "out_queue_gemini s' = map item_msg rest" "is_running s'"
        "sent @ rest = pending @ puts_of evs"
      by auto
    have "\<forall>it \<in> set rest. decodable dec it"
    proof
      fix it assume "it \<in> set rest"
      then have "it \<in> set (sent @ rest)" by simp
      then show "decodable dec it" using st(4) assms(4) by simp
    qed
    from send_realtime_drains [OF st(3) st(1) st(2) this]
    have "send_realtime dec s'
        = (Awaiting, s'\<lparr>out_queue_gemini := [],
             session := Some (log @ map (realtime_call dec) (sent @ rest))\<rparr>)"
      by simp
    with st show ?thesis by auto
  qed
  with inv show ?thesis by blast
qed


theorem outbound_items_forwarded_fifo_once_witness:
  "mux_run sample_b64decode [Put (Audio [1, 2]), Put (Image ''QQ==''), Consume, Put (Audio [3])]
      ((init_core ''camera'' ())\<lparr>session := Some []\<rparr>)
     = Done ((init_core ''camera'' ())\<lparr>
         session := Some [Send_realtime_audio (PBytes [1, 2]) ''audio/pcm''],
         out_queue_gemini := [item_msg (Image ''QQ==''), item_msg (Audio [3])]\<rparr>)
   \<and> send_realtime sample_b64decode ((init_core ''camera'' ())\<lparr>
         session := Some [Send_realtime_audio (PBytes [1, 2]) ''audio/pcm''],
         out_queue_gemini := [item_msg (Image ''QQ==''), item_msg (Audio [3])]\<rparr>)
     = (Awaiting, (init_core ''camera'' ())\<lparr>
         session := Some [Send_realtime_audio (PBytes [1, 2]) ''audio/pcm'',
                          Send_realtime_video [65] ''image/jpeg'',
                          Send_realtime_audio (PBytes [3]) ''audio/pcm''],
         out_queue_gemini := []\<rparr>)"
proof -
  let ?s = "(init_core ''camera'' ())\<lparr>session := Some []\<rparr>"
  let ?evs = "[Put (Audio [1, 2]), Put (Image ''QQ==''), Consume, Put (Audio [3])]"
  have h1: "is_running ?s" and h2: "session ?s = Some []"
    and h3: "out_queue_gemini ?s = map item_msg []"
    by (simp_all add: init_core_def)
  have h4: "\<forall>it \<in> set ([] @ puts_of ?evs). decodable sample_b64decode it"
    by (simp add: decodable_def sample_b64decode_def)
  have run: "mux_run sample_b64decode ?evs ?s
     = Done ((init_core ''camera'' ())\<lparr>
         session := Some [Send_realtime_audio (PBytes [1, 2]) ''audio/pcm''],
         out_queue_gemini := [item_msg (Image ''QQ==''), item_msg (Audio [3])]\<rparr>)"
    by (simp add: init_core_def maxsize_def forward_realtime_def subscript_def
        session_call_on_def)
  from outbound_items_forwarded_fifo_once [OF h1 h2 h3 h4] run show ?thesis
    by (auto simp: sample_b64decode_def init_core_def)
qed

lemma holds_after_append:
  "holds_after h (xs @ ys) = (case holds_after h xs of None \<Rightarrow> None | Some k \<Rightarrow> holds_after k ys)"
  by (induction h xs rule: holds_after.induct) auto

lemma release_capture_discipline:
  assumes "holds_after False (devices s) = Some (video_capture s \<noteq> None)"
  shows "holds_after False (devices (release_capture s)) = Some False"
    and "video_capture (release_capture s) = None"
  using assms by (auto simp: release_capture_def holds_after_append)

lemma capture_body_discipline:
  assumes "holds_after False (devices s) = Some (video_capture s \<noteq> None)"
    and "capture_body io s = (r, t)"
  shows "holds_after False (devices t) = Some (video_capture t \<noteq> None)"
proof (cases "video_mode s = ''camera''")
  case True
  with assms show ?thesis
    by (auto simp: capture_body_def publish_frame_def emit_def holds_after_append Let_def
        split: option.splits sum.splits if_splits)
next
  case False
  note rel = release_capture_discipline [OF assms(1)]
  from False assms(2) rel show ?thesis
    by (auto simp: capture_body_def publish_frame_def emit_def holds_after_append Let_def
        split: option.splits sum.splits if_splits)
qed

lemma stream_video_iteration_discipline:
  assumes "holds_after False (devices s) = Some (video_capture s \<noteq> None)"
  shows "holds_after False (devices (stream_video_iteration io s))
           = Some (video_capture (stream_video_iteration io s) \<noteq> None)"
proof -
  obtain r t where body: "capture_body io s = (r, t)"
    by (cases "capture_body io s")
  note inv = capture_body_discipline [OF assms body]
  show ?thesis
  proof (cases r)
    case None
    with body inv show ?thesis by (simp add: stream_video_iteration_def)
  next
    case (Some e)
    with body release_capture_discipline [OF inv] show ?thesis
      by (simp add: stream_video_iteration_def)
  qed
qed

lemma set_video_mode_keeps_capture:
  "video_capture (set_video_mode m s) = video_capture s"
  "devices (set_video_mode m s) = devices s"
  by (simp_all add: set_video_mode_def emit_def Let_def)

lemma stream_video_iteration_releases:
  assumes "video_mode s \<noteq> ''camera''"
  shows "video_capture (stream_video_iteration io s) = None"
  using assms
  by (auto simp: stream_video_iteration_def capture_body_def release_capture_def
      publish_frame_def emit_def Let_def split: option.splits sum.splits)

lemma run_video_discipline:
  assumes "holds_after False (devices s) = Some (video_capture s \<noteq> None)"
  shows "holds_after False (devices (run_video evs s))
           = Some (video_capture (run_video evs s) \<noteq> None)"
  using assms unfolding run_video_def
proof (induction evs arbitrary: s)
  case Nil
  then show ?case by simp
next
  case (Cons ev evs)
  have "holds_after False (devices (video_step s ev))
      = Some (video_capture (video_step s ev) \<noteq> None)"
  proof (cases ev)
    case (Set_mode m)
    then show ?thesis using Cons.prems by (simp add: set_video_mode_keeps_capture)
  next
    case (Iteration io)
    then show ?thesis
      using Cons.prems stream_video_iteration_discipline [OF Cons.prems, of io] by simp
  qed
  from Cons.IH [OF this] show ?case by simp
qed

text \<open>
  Claim C6, as the code has it. The mode switch itself touches neither the capture nor
  the devices: the camera held under the previous mode is released by the capture loop,
  in its next iteration under the new mode. Whatever the interleaving of mode switches
  and iterations, the devices are used in the discipline of \<open>holds_after\<close>: the screen
  is grabbed only after the camera has been released, the camera is opened only when
  none is held, so two capture resources are never held together; an iteration under
  screen or none ends with no camera held; and the statement after the loop leaves no
  camera held.
\<close>

theorem capture_released_by_next_iteration:
  assumes "holds_after False (devices s) = Some (video_capture s \<noteq> None)"
  shows "video_capture (set_video_mode m s) = video_capture s
       \<and> devices (set_video_mode m s) = devices s
       \<and> (video_mode s \<noteq> ''camera'' \<longrightarrow> video_capture (stream_video_iteration io s) = None)
       \<and> holds_after False (devices (run_video evs s))
           = Some (video_capture (run_video evs s) \<noteq> None)
       \<and> holds_after False (devices (stream_video_finish (run_video evs s))) = Some False"
proof -
  note inv = run_video_discipline [OF assms, of evs]
  have "holds_after False (devices (stream_video_finish (run_video evs s))) = Some False"
    using inv by (auto simp: stream_video_finish_def holds_after_append)
  with inv show ?thesis
    by (simp add: set_video_mode_keeps_capture stream_video_iteration_releases)
qed

theorem capture_released_by_next_iteration_witness:
  "video_mode (set_video_mode ''screen''
      (stream_video_iteration camera_ok (init_core ''camera'' ()))) \<noteq> ''camera''
   \<and> holds_after False (devices (set_video_mode ''screen''
        (stream_video_iteration camera_ok (init_core ''camera'' ())))) = Some True
   \<and> video_capture (stream_video_iteration camera_ok (set_video_mode ''screen''
        (stream_video_iteration camera_ok (init_core ''camera'' ())))) = None
   \<and> devices (run_video [Iteration camera_ok] (set_video_mode ''screen''
        (stream_video_iteration camera_ok (init_core ''camera'' ()))))
       = [Opened, Read_frame, Released, Grabbed]"
proof -
  let ?s = "set_video_mode ''screen''
      (stream_video_iteration camera_ok (init_core ''camera'' ())) :: unit core"
  have state: "?s = (init_core ''camera'' ())\<lparr>video_mode := ''screen'',
      latest_frame := Some [7], video_capture := Some (VideoCapture 0),
      devices := [Opened, Read_frame],
      signals := [Frame_received (Some [7]), Video_mode_changed ''screen'']\<rparr>"
    by (simp add: init_core_def stream_video_iteration_def capture_body_def
        camera_ok_def publish_frame_def emit_def set_video_mode_def video_modes_def Let_def)
  have start: "holds_after False (devices ?s) = Some (video_capture ?s \<noteq> None)"
    unfolding state by simp
  have mode: "video_mode ?s \<noteq> ''camera''"
    unfolding state by simp
  have log: "devices (run_video [Iteration camera_ok] ?s)
      = [Opened, Read_frame, Released, Grabbed]"
    unfolding state
    by (simp add: run_video_def init_core_def stream_video_iteration_def
        capture_body_def camera_ok_def publish_frame_def emit_def release_capture_def Let_def)
  from capture_released_by_next_iteration [OF start, of "''screen''" camera_ok
      "[Iteration camera_ok]"] mode log start
  show ?thesis unfolding state by simp
qed

text \<open>
  The claim as stated fails: after an iteration in camera mode has opened the camera, the
  call that switches to screen returns with the camera still held.
\<close>

theorem switch_returns_with_camera_held:
  "video_capture (set_video_mode ''screen''
      (stream_video_iteration camera_ok (init_core ''camera'' ()))) = Some (VideoCapture 0)
   \<and> devices (set_video_mode ''screen''
      (stream_video_iteration camera_ok (init_core ''camera'' ()))) = [Opened, Read_frame]"
  by (simp add: init_core_def stream_video_iteration_def capture_body_def
      camera_ok_def publish_frame_def emit_def set_video_mode_def video_modes_def Let_def)


















lemma try_except_structured:
  assumes "\<And>d w1. body w = (Inr d, w1) \<Longrightarrow> structured d"
    and "\<And>e. structured (handler e)"
  shows "returns_structured (try_except body handler w)"
  using assms
  by (cases "body w") (auto simp: try_except_def returns_structured_def split: sum.splits)


lemma in_statuses [simp]:
  "''success'' \<in> set statuses" "''error'' \<in> set statuses"
  "''skipped'' \<in> set statuses" "''not_found'' \<in> set statuses"
  by (simp_all add: statuses_def)

lemma structured_status_msg [simp]: "st \<in> set statuses \<Longrightarrow> structured (status_msg st m)"
  by (simp add: structured_def status_msg_def status_of_def message_of_def)

lemma structured_status_msg_extra [simp]:
  "st \<in> set statuses \<Longrightarrow> structured (status_msg st m @ extra)"
  by (simp add: structured_def status_msg_def status_of_def message_of_def)

lemma create_folder_structured: "returns_structured (create_folder os v w)"
  unfolding create_folder_def
  by (rule try_except_structured)
     (auto simp: create_folder_body_def split: option.splits if_splits prod.splits)

lemma create_file_structured: "returns_structured (create_file os v c w)"
  unfolding create_file_def
  by (rule try_except_structured)
     (auto simp: create_file_body_def split: option.splits if_splits prod.splits)

lemma edit_file_structured: "returns_structured (edit_file os v c w)"
  unfolding edit_file_def
  by (rule try_except_structured)
     (auto simp: edit_file_body_def split: option.splits if_splits prod.splits)

lemma list_files_structured: "returns_structured (list_files os v w)"
  unfolding list_files_def
  by (rule try_except_structured)
     (auto simp: list_files_body_def
           split: option.splits if_splits prod.splits pyval.splits sum.splits)

lemma read_file_structured: "returns_structured (read_file os v w)"
  unfolding read_file_def
  by (rule try_except_structured)
     (auto simp: read_file_body_def split: option.splits if_splits prod.splits sum.splits)

lemma move_file_structured: "returns_structured (move_file os v c w)"
  unfolding move_file_def
  by (rule try_except_structured)
     (auto simp: move_file_body_def Let_def split: option.splits if_splits prod.splits)

lemma launch_structured: "launch os cmd m w = (Inr d, w1) \<Longrightarrow> structured d"
  by (auto simp: launch_def split: option.splits prod.splits)

lemma open_application_structured: "returns_structured (open_application os v w)"
  unfolding open_application_def
  by (rule try_except_structured)
     (auto simp: open_application_body_def Let_def dest: launch_structured
           split: option.splits if_splits prod.splits)

lemma browse_structured: "browse os url m w = (Inr d, w1) \<Longrightarrow> structured d"
  by (auto simp: browse_def split: option.splits prod.splits)

lemma open_direct_youtube_structured: "returns_structured (open_direct_youtube os v c w)"
  unfolding open_direct_youtube_def
  by (rule try_except_structured)
     (auto simp: open_direct_youtube_body_def Let_def dest: browse_structured
           split: option.splits)

lemma search_and_open_structured: "returns_structured (search_and_open os v c w)"
  unfolding search_and_open_def
  by (rule try_except_structured)
     (auto simp: search_and_open_body_def Let_def dest: browse_structured
           split: option.splits if_splits)

lemma close_by_structured: "close_by os cmd app m w = (Inr d, w1) \<Longrightarrow> structured d"
  by (auto simp: close_by_def split: sum.splits prod.splits if_splits)

lemma close_application_structured: "returns_structured (close_application os v w)"
  unfolding close_application_def
  by (rule try_except_structured)
     (auto simp: close_application_body_def Let_def dest: close_by_structured
           split: option.splits if_splits prod.splits sum.splits)

lemma open_website_structured: "returns_structured (open_website os v w)"
  unfolding open_website_def
  by (rule try_except_structured)
     (auto simp: open_website_body_def Let_def dest: browse_structured
           split: option.splits)

lemma answer_calls_match:
  "answer_calls os fcs rs fld s = (Inr (rs', fld'), s')
     \<Longrightarrow> map (\<lambda>r. (tr_id r, tr_name r)) rs'
          = map (\<lambda>r. (tr_id r, tr_name r)) rs @ map (\<lambda>fc. (fc_id fc, fc_name fc)) fcs"
proof (induction fcs arbitrary: rs fld s)
  case Nil
  then show ?case by simp
next
  case (Cons fc fcs)
  from Cons.prems obtain r fld1 s1 where
    one: "answer_call os fc fld s = (Inr (r, fld1), s1)"
    and rest: "answer_calls os fcs (rs @ [r]) fld1 s1 = (Inr (rs', fld'), s')"
    by (auto split: prod.splits sum.splits)
  from one have "tr_id r = fc_id fc" "tr_name r = fc_name fc"
    by (auto simp: answer_call_def then_do_def split: prod.splits sum.splits)
  with Cons.IH [OF rest] show ?case by simp
qed

text \<open>
  When no branch raises, the session receives one batch, with one response for each call
  of the chunk, in order, with its id and name.
\<close>

lemma handle_tool_calls_answers_all:
  assumes "handle_tool_calls os fcs fld s = (Inr fld', s')"
  shows "\<exists>log responses. session s' = Some (log @ [Send_tool_response responses])
           \<and> map (\<lambda>r. (tr_id r, tr_name r)) responses = map (\<lambda>fc. (fc_id fc, fc_name fc)) fcs"
proof -
  from assms obtain rs fld1 s1 where
    calls: "answer_calls os fcs [] fld s = (Inr (rs, fld1), s1)"
    and sent: "session_call_on (Send_tool_response rs) s1 = Inr s'"
    by (auto simp: handle_tool_calls_def split: prod.splits sum.splits)
  from sent obtain log where "session s' = Some (log @ [Send_tool_response rs])"
    by (auto simp: session_call_on_def split: option.splits)
  with answer_calls_match [OF calls] show ?thesis by auto
qed

text \<open>
  Claim C1 fails on the code. A chunk carries one call of \<open>create_folder\<close> whose
  \<open>folder_path\<close> is the number 123. The helper answers with status error, but
  \<open>escape(path)\<close> in the branch raises on the number, the exception leaves the loop over
  the chunks, and the turn is dropped: the session receives no response for the call.
\<close>

theorem create_folder_call_with_number_is_not_answered:
  "fst (create_folder sample_os (PInt 123) ())
     = Inr [(''status'', PStr ''error''), (''message'', PStr ''Invalid folder path provided.'')]
   \<and> receive_turn sample_os
        [tool_chunk [\<lparr>fc_id = ''call-1'', fc_name = ''create_folder'',
                      fc_args = [(''folder_path'', PInt 123)]\<rparr>]] None sample_session
     = sample_session
   \<and> session sample_session = Some []"
  by (simp add: receive_turn_def tool_chunk_def process_chunk_def handle_tool_calls_def
      answer_call_def call_tool_def tool_create_folder_def then_do_def in_world_def
      create_folder_def create_folder_body_def try_except_def activity_def color_def
      message_part_def get_or_def is_success_def get_def status_msg_def
      sample_session_def init_core_def Let_def)



lemma texts_added_refl [simp]: "texts_added [] s s"
  by (simp add: texts_added_def)




































lemma streamed_refl [simp]: "streamed t s t s"
  by (simp add: streamed_def)









lemma string_args_lookup:
  "string_args args \<Longrightarrow> map_of args k = Some v \<Longrightarrow> \<exists>t. v = PStr t"
  by (induction args) (auto simp: string_args_def split: pyval.splits if_splits)

lemma get_or_string:
  "string_args args \<Longrightarrow> \<exists>t. get_or args k (PStr d) = PStr t"
  by (cases "map_of args k") (auto simp: get_or_def dest: string_args_lookup)

lemma get_string_or_none:
  "string_args args \<Longrightarrow> get args k = PNone \<or> (\<exists>t. get args k = PStr t)"
  by (cases "map_of args k") (auto simp: get_def dest: string_args_lookup)

lemma structured_message: "structured d \<Longrightarrow> \<exists>m. message_part d = Inr m"
  by (auto simp: structured_def message_part_def message_of_def get_or_def
      split: option.splits pyval.splits)

lemma returns_structuredD:
  "returns_structured r \<Longrightarrow> \<exists>d. fst r = Inr d \<and> structured d"
  by (auto simp: returns_structured_def split: sum.splits)

lemma in_world_helper:
  assumes "returns_structured (f (world s))"
  shows "\<exists>d s1. in_world f s = (Inr d, s1) \<and> structured d \<and> untouched s s1
           \<and> f (world s) = (Inr d, world s1)"
proof -
  from returns_structuredD [OF assms] obtain d where "fst (f (world s)) = Inr d" "structured d"
    by blast
  then show ?thesis
    by (cases "f (world s)") (auto simp: in_world_def untouched_def)
qed

lemma activity_strings:
  "sequence parts = Inr ps \<Longrightarrow> \<exists>s1. activity tag parts s = (Inr (), s1) \<and> untouched s s1"
  by (auto simp: activity_def emit_def untouched_def)

lemma read_file_content:
  "read_file os v w = (Inr d, w1) \<Longrightarrow> \<exists>t. get_or d ''content'' (PStr []) = PStr t"
  by (auto simp: read_file_def read_file_body_def try_except_def status_msg_def get_or_def
      split: option.splits if_splits sum.splits prod.splits)

lemma move_file_destination:
  "move_file os v (PStr dst) w = (Inr d, w1) \<Longrightarrow> \<exists>t. get_or d ''destination'' (PStr dst) = PStr t"
  by (auto simp: move_file_def move_file_body_def try_except_def status_msg_def get_or_def
      Let_def split: option.splits if_splits sum.splits prod.splits)

lemma tool_create_folder_answers:
  assumes "string_args args"
  shows "\<exists>d s1. tool_create_folder os args s = (Inr d, s1) \<and> untouched s s1"
proof -
  from get_or_string [OF assms] obtain p where p: "get_or args ''folder_path'' (PStr []) = PStr p"
    by blast
  from in_world_helper [of "create_folder os (PStr p)" s, OF create_folder_structured] obtain d s1 where
    h: "in_world (create_folder os (PStr p)) s = (Inr d, s1)" "structured d" "untouched s s1"
    by blast
  from structured_message [OF h(2)] obtain m where m: "message_part d = Inr m" by blast
  have "sequence [color (is_success d) ''#ff9944'', py_escape (PStr p), message_part d]
      = Inr [if is_success d then ''#90EE90'' else ''#ff9944'', escape p, m]"
    by (simp add: color_def m)
  from activity_strings [OF this, of "''CREATE FOLDER''" s1] h p show ?thesis
    by (auto simp: tool_create_folder_def then_do_def untouched_def)
qed

lemma tool_create_file_answers:
  assumes "string_args args"
  shows "\<exists>d s1. tool_create_file os args s = (Inr d, s1) \<and> untouched s s1"
proof -
  from get_or_string [OF assms] obtain p c where
    p: "get_or args ''file_path'' (PStr []) = PStr p"
    and c: "get_or args ''content'' (PStr []) = PStr c"
    by blast
  from in_world_helper [of "create_file os (PStr p) (PStr c)" s, OF create_file_structured] obtain d s1 where
    h: "in_world (create_file os (PStr p) (PStr c)) s = (Inr d, s1)" "structured d"
       "untouched s s1"
    by blast
  from structured_message [OF h(2)] obtain m where m: "message_part d = Inr m" by blast
  have "sequence [color (is_success d) ''#ff9944'', py_escape (PStr p),
        Inr (str_int (int (length (splitlines c)))), message_part d]
      = Inr [if is_success d then ''#90EE90'' else ''#ff9944'', escape p,
             str_int (int (length (splitlines c))), m]"
    by (simp add: color_def m)
  from activity_strings [OF this, of "''CREATE FILE''" s1] h p c show ?thesis
    by (auto simp: tool_create_file_def then_do_def untouched_def)
qed

lemma tool_edit_file_answers:
  assumes "string_args args"
  shows "\<exists>d s1. tool_edit_file os args s = (Inr d, s1) \<and> untouched s s1"
proof -
  from get_or_string [OF assms] obtain p c where
    p: "get_or args ''file_path'' (PStr []) = PStr p"
    and c: "get_or args ''content'' (PStr []) = PStr c"
    by blast
  from in_world_helper [of "edit_file os (PStr p) (PStr c)" s, OF edit_file_structured] obtain d s1 where
    h: "in_world (edit_file os (PStr p) (PStr c)) s = (Inr d, s1)" "structured d"
       "untouched s s1"
    by blast
  from structured_message [OF h(2)] obtain m where m: "message_part d = Inr m" by blast
  have "sequence [color (is_success d) ''#ff9944'', py_escape (PStr p), message_part d]
      = Inr [if is_success d then ''#90EE90'' else ''#ff9944'', escape p, m]"
    by (simp add: color_def m)
  from activity_strings [OF this, of "''EDIT FILE''" s1] h p c show ?thesis
    by (auto simp: tool_edit_file_def then_do_def untouched_def)
qed

lemma tool_list_files_answers:
  "\<exists>d s1. tool_list_files os args s = (Inr d, s1) \<and> untouched s s1"
  using in_world_helper [of "list_files os (get args ''directory_path'')" s, OF list_files_structured]
  by (auto simp: tool_list_files_def)

lemma tool_read_file_answers:
  assumes "string_args args"
  shows "\<exists>d s1. tool_read_file os args s = (Inr d, s1) \<and> untouched s s1"
proof -
  from get_or_string [OF assms] obtain p where p: "get_or args ''file_path'' (PStr []) = PStr p"
    by blast
  from in_world_helper [of "read_file os (PStr p)" s, OF read_file_structured] obtain d s1 where
    h: "in_world (read_file os (PStr p)) s = (Inr d, s1)" "structured d" "untouched s s1"
       "read_file os (PStr p) (world s) = (Inr d, world s1)"
    by blast
  from read_file_content [OF h(4)] obtain t where t: "get_or d ''content'' (PStr []) = PStr t"
    by blast
  from h(2) obtain m where m: "get_or d ''message'' (PStr []) = PStr m"
    by (auto simp: structured_def message_of_def get_or_def split: option.splits pyval.splits)
  obtain pv where pv: "preview_of (is_success d) d = Inr (PStr pv)"
    by (cases "is_success d") (simp_all add: t m)
  have "sequence [py_escape (PStr p), color (is_success d) ''#ff9944'', py_escape (PStr pv),
        dots_of d]
      = Inr [escape p, if is_success d then ''#90EE90'' else ''#ff9944'', escape pv,
             if length t > 120 then ''...'' else []]"
    by (simp add: color_def dots_of_def t)
  from activity_strings [OF this, of "''READ FILE''" s1] h(1,3) p pv show ?thesis
    by (auto simp: tool_read_file_def then_do_def untouched_def)
qed

lemma tool_open_application_answers:
  assumes "string_args args"
  shows "\<exists>d s1. tool_open_application os args s = (Inr d, s1) \<and> untouched s s1"
proof -
  from get_or_string [OF assms] obtain p where
    p: "get_or args ''application_name'' (PStr []) = PStr p"
    by blast
  have "sequence [py_escape (PStr p)] = Inr [escape p]" by simp
  from activity_strings [OF this, of "''LAUNCHING APP''" s] obtain s0 where
    a: "activity ''LAUNCHING APP'' [py_escape (PStr p)] s = (Inr (), s0)" "untouched s s0"
    by blast
  from in_world_helper [of "open_application os (PStr p)" s0, OF open_application_structured] obtain d s1 where
    h: "in_world (open_application os (PStr p)) s0 = (Inr d, s1)" "structured d"
       "untouched s0 s1"
    by blast
  from structured_message [OF h(2)] obtain m where m: "message_part d = Inr m" by blast
  have "sequence [color (is_success d) ''#ff9944'', py_escape (PStr p), message_part d]
      = Inr [if is_success d then ''#90EE90'' else ''#ff9944'', escape p, m]"
    by (simp add: color_def m)
  from activity_strings [OF this, of "''APP LAUNCHED''" s1] a h p show ?thesis
    by (auto simp: tool_open_application_def then_do_def untouched_def)
qed

lemma tool_close_application_answers:
  assumes "string_args args"
  shows "\<exists>d s1. tool_close_application os args s = (Inr d, s1) \<and> untouched s s1"
proof -
  from get_or_string [OF assms] obtain p where
    p: "get_or args ''application_name'' (PStr []) = PStr p"
    by blast
  have "sequence [py_escape (PStr p)] = Inr [escape p]" by simp
  from activity_strings [OF this, of "''CLOSING APP''" s] obtain s0 where
    a: "activity ''CLOSING APP'' [py_escape (PStr p)] s = (Inr (), s0)" "untouched s s0"
    by blast
  from in_world_helper [of "close_application os (PStr p)" s0, OF close_application_structured] obtain d s1 where
    h: "in_world (close_application os (PStr p)) s0 = (Inr d, s1)" "structured d"
       "untouched s0 s1"
    by blast
  from structured_message [OF h(2)] obtain m where m: "message_part d = Inr m" by blast
  have "sequence [color (is_success d) ''#ff6b6b'', py_escape (PStr p), message_part d]
      = Inr [if is_success d then ''#90EE90'' else ''#ff6b6b'', escape p, m]"
    by (simp add: color_def m)
  from activity_strings [OF this, of "''APP CLOSED''" s1] a h p show ?thesis
    by (auto simp: tool_close_application_def then_do_def untouched_def)
qed

lemma tool_open_website_answers:
  assumes "string_args args"
  shows "\<exists>d s1. tool_open_website os args s = (Inr d, s1) \<and> untouched s s1"
proof -
  from get_or_string [OF assms] obtain p where p: "get_or args ''url'' (PStr []) = PStr p"
    by blast
  from in_world_helper [of "open_website os (PStr p)" s, OF open_website_structured] obtain d s1 where
    h: "in_world (open_website os (PStr p)) s = (Inr d, s1)" "structured d" "untouched s s1"
    by blast
  from structured_message [OF h(2)] obtain m where m: "message_part d = Inr m" by blast
  obtain dv where dv: "display_of (PStr p) = Inr (PStr dv)" by simp
  have "sequence [py_escape (PStr p), py_escape (PStr dv), color (is_success d) ''#ff9944'',
        message_part d]
      = Inr [escape p, escape dv, if is_success d then ''#90EE90'' else ''#ff9944'', m]"
    by (simp add: color_def m)
  from activity_strings [OF this, of "''OPEN WEBSITE''" s1] h p dv show ?thesis
    by (auto simp: tool_open_website_def then_do_def untouched_def)
qed

lemma tool_open_direct_youtube_answers:
  assumes "string_args args"
  shows "\<exists>d s1. tool_open_direct_youtube os args s = (Inr d, s1) \<and> untouched s s1"
proof -
  from get_or_string [OF assms] obtain p c where
    p: "get_or args ''query'' (PStr []) = PStr p"
    and c: "get_or args ''content_type'' (PStr ''channel'') = PStr c"
    by blast
  from in_world_helper [of "open_direct_youtube os (PStr p) (PStr c)" s, OF open_direct_youtube_structured]
  obtain d s1 where
    h: "in_world (open_direct_youtube os (PStr p) (PStr c)) s = (Inr d, s1)" "untouched s s1"
    by blast
  have "sequence [py_escape (PStr p), Inr (py_str (PStr c))] = Inr [escape p, c]"
    by simp
  from activity_strings [OF this, of "''YOUTUBE SEARCH''" s1] h p c show ?thesis
    by (auto simp: tool_open_direct_youtube_def then_do_def untouched_def)
qed

lemma tool_search_and_open_answers:
  assumes "string_args args"
  shows "\<exists>d s1. tool_search_and_open os args s = (Inr d, s1) \<and> untouched s s1"
proof -
  from get_or_string [OF assms] obtain p c where
    p: "get_or args ''query'' (PStr []) = PStr p"
    and c: "get_or args ''platform'' (PStr ''youtube'') = PStr c"
    by blast
  from in_world_helper [of "search_and_open os (PStr p) (PStr c)" s, OF search_and_open_structured]
  obtain d s1 where
    h: "in_world (search_and_open os (PStr p) (PStr c)) s = (Inr d, s1)" "untouched s s1"
    by blast
  have "sequence [Inr (if PStr c = PStr ''youtube'' then ''#ff4444'' else ''#4488ff''),
        escaped (py_upper (PStr c)), py_escape (PStr p)]
      = Inr [if PStr c = PStr ''youtube'' then ''#ff4444'' else ''#4488ff'',
             escape (upper c), escape p]"
    by (simp add: escaped_def)
  from activity_strings [OF this, of "''SEARCH & OPEN''" s1] h p c show ?thesis
    by (auto simp: tool_search_and_open_def then_do_def untouched_def)
qed

lemma tool_search_file_answers:
  assumes "string_args args"
  shows "\<exists>d s1. tool_search_file os args s = (Inr d, s1) \<and> untouched s s1"
proof -
  from get_or_string [OF assms] obtain p where p: "get_or args ''filename'' (PStr []) = PStr p"
    by blast
  have "sequence [py_escape (PStr p)] = Inr [escape p]" by simp
  from activity_strings [OF this, of "''FILE SEARCH''" s] p show ?thesis
    by (auto simp: tool_search_file_def then_do_def untouched_def emit_def Let_def)
qed

lemma open_failed_answers: "\<exists>d s1. open_failed e s = (Inr d, s1) \<and> untouched s s1"
proof -
  have "sequence [Inr (escape (exn_str e))] = Inr [escape (exn_str e)]" by simp
  from activity_strings [OF this, of "''OPEN FAILED''" s] show ?thesis
    by (auto simp: open_failed_def then_do_def)
qed

lemma open_found_answers: "\<exists>d s1. open_found os (PStr p) s = (Inr d, s1) \<and> untouched s s1"
proof -
  let ?f = "if os_platform os = ''win32'' then os_startfile os p
      else os_popen os (Argv [''xdg-open'', p])"
  obtain r s0 where l: "in_world ?f s = (r, s0)" by (cases "in_world ?f s")
  then have u: "untouched s s0"
    by (auto simp: in_world_def untouched_def split: prod.splits)
  show ?thesis
  proof (cases r)
    case None
    with l u show ?thesis
      by (auto simp: open_found_def untouched_def emit_def)
  next
    case (Some e)
    from open_failed_answers [of e s0] obtain d s1 where
      "open_failed e s0 = (Inr d, s1)" "untouched s0 s1" by blast
    with l u Some show ?thesis
      by (auto simp: open_found_def untouched_def)
  qed
qed

lemma tool_open_file_answers:
  assumes "string_args args"
  shows "\<exists>d s1. tool_open_file os args s = (Inr d, s1) \<and> untouched s s1"
proof -
  let ?fp = "get args ''file_path''" and ?fn = "get args ''filename''"
  have fp: "?fp = PNone \<or> (\<exists>t. ?fp = PStr t)" and fn: "?fn = PNone \<or> (\<exists>t. ?fn = PStr t)"
    using get_string_or_none [OF assms] by blast+
  have located: "\<exists>v s0. locate_file os ?fp ?fn s = (Inr v, s0) \<and> untouched s s0
      \<and> (v = PNone \<or> (\<exists>t. v = PStr t))"
  proof (cases "\<not> truthy ?fp \<and> truthy ?fn")
    case False
    with fp show ?thesis by (auto simp: locate_file_def untouched_def)
  next
    case True
    with fn obtain f where f: "?fn = PStr f" by auto
    have "sequence [py_escape (PStr f)] = Inr [escape f]" by simp
    from activity_strings [OF this, of "''LOCATING FILE''" s] True f show ?thesis
      by (auto simp: locate_file_def then_do_def untouched_def emit_def split: list.splits)
  qed
  then obtain v s0 where l: "locate_file os ?fp ?fn s = (Inr v, s0)" "untouched s s0"
    and v: "v = PNone \<or> (\<exists>t. v = PStr t)"
    by blast
  have "\<exists>d s1. (if truthy v \<and> exists_val os (world s0) v = Inr True then open_found os v s0
        else then_do (activity ''FILE NOT FOUND''
                [py_escape (or_val ?fn (or_val v (PStr ''?'')))] s0)
               (\<lambda>u s3. (Inr (status_msg ''not_found''
                     (''File not found: '' @ quoted (py_str (or_val v ?fn)) @ ''.'')), s3)))
      = (Inr d, s1) \<and> untouched s0 s1"
  proof (cases "truthy v \<and> exists_val os (world s0) v = Inr True")
    case True
    with v obtain p where "v = PStr p" by auto
    with True open_found_answers [of os p s0] show ?thesis by auto
  next
    case False
    from fn v have "\<exists>q. or_val ?fn (or_val v (PStr ''?'')) = PStr q"
      by (auto simp: or_val_def)
    then obtain q where q: "or_val ?fn (or_val v (PStr ''?'')) = PStr q" ..
    have "sequence [py_escape (PStr q)] = Inr [escape q]" by simp
    from activity_strings [OF this, of "''FILE NOT FOUND''" s0] False q show ?thesis
      by (auto simp: then_do_def)
  qed
  then obtain d s1 where rest: "(if truthy v \<and> exists_val os (world s0) v = Inr True
        then open_found os v s0
        else then_do (activity ''FILE NOT FOUND''
                [py_escape (or_val ?fn (or_val v (PStr ''?'')))] s0)
               (\<lambda>u s3. (Inr (status_msg ''not_found''
                     (''File not found: '' @ quoted (py_str (or_val v ?fn)) @ ''.'')), s3)))
      = (Inr d, s1)" and u: "untouched s0 s1"
    by blast
  have "tool_open_file os args s = (Inr d, s1)"
    using l(1) rest v
    by (auto simp: tool_open_file_def then_do_def Let_def split: if_splits)
  with l(2) u show ?thesis by (auto simp: untouched_def)
qed

lemma tool_move_file_answers:
  assumes "string_args args"
  shows "\<exists>d s1. tool_move_file os args s = (Inr d, s1) \<and> untouched s s1"
proof -
  from get_or_string [OF assms] obtain p c where
    p: "get_or args ''source_path'' (PStr []) = PStr p"
    and c: "get_or args ''destination_path'' (PStr []) = PStr c"
    by blast
  have "sequence [py_escape (PStr (os_path_basename os p)), py_escape (PStr p), py_escape (PStr c)]
      = Inr [escape (os_path_basename os p), escape p, escape c]"
    by simp
  from activity_strings [OF this, of "''MOVING FILE''" s] obtain s0 where
    a: "activity ''MOVING FILE''
          [py_escape (PStr (os_path_basename os p)), py_escape (PStr p), py_escape (PStr c)] s
        = (Inr (), s0)" "untouched s s0"
    by blast
  from in_world_helper [of "move_file os (PStr p) (PStr c)" s0, OF move_file_structured] obtain d s1 where
    h: "in_world (move_file os (PStr p) (PStr c)) s0 = (Inr d, s1)" "untouched s0 s1"
       "move_file os (PStr p) (PStr c) (world s0) = (Inr d, world s1)"
    by blast
  from move_file_destination [OF h(3)] obtain t where
    t: "get_or d ''destination'' (PStr c) = PStr t" by blast
  have "sequence [color (is_success d) ''#ff6b6b'', py_escape (PStr (os_path_basename os p)),
        py_escape (PStr t)]
      = Inr [if is_success d then ''#90EE90'' else ''#ff6b6b'',
             escape (os_path_basename os p), escape t]"
    by (simp add: color_def)
  from activity_strings [OF this, of "''FILE MOVED''" s1] a h(1,2) p c t show ?thesis
    by (auto simp: tool_move_file_def then_do_def untouched_def)
qed

lemma call_tool_answers:
  assumes "string_args (fc_args fc)"
  shows "\<exists>d s1. call_tool os fc s = (Inr d, s1) \<and> untouched s s1"
proof -
  let ?args = "fc_args fc"
  have "answered s (tool_create_folder os ?args s)" "answered s (tool_create_file os ?args s)"
    "answered s (tool_edit_file os ?args s)" "answered s (tool_list_files os ?args s)"
    "answered s (tool_read_file os ?args s)" "answered s (tool_open_application os ?args s)"
    "answered s (tool_close_application os ?args s)" "answered s (tool_open_website os ?args s)"
    "answered s (tool_open_direct_youtube os ?args s)"
    "answered s (tool_search_and_open os ?args s)" "answered s (tool_search_file os ?args s)"
    "answered s (tool_open_file os ?args s)" "answered s (tool_move_file os ?args s)"
    unfolding answered_def
    by (rule tool_create_folder_answers [OF assms] tool_create_file_answers [OF assms]
        tool_edit_file_answers [OF assms] tool_list_files_answers
        tool_read_file_answers [OF assms] tool_open_application_answers [OF assms]
        tool_close_application_answers [OF assms] tool_open_website_answers [OF assms]
        tool_open_direct_youtube_answers [OF assms] tool_search_and_open_answers [OF assms]
        tool_search_file_answers [OF assms] tool_open_file_answers [OF assms]
        tool_move_file_answers [OF assms])+
  moreover have "answered s (Inr ([] :: pydict), s)"
    by (simp add: answered_def untouched_def)
  ultimately have "answered s (call_tool os fc s)"
    by (simp add: call_tool_def Let_def)
  then show ?thesis by (simp add: answered_def)
qed

lemma answer_calls_answers:
  assumes "list_all (\<lambda>fc. string_args (fc_args fc)) fcs"
  shows "\<exists>rs' fld' s'. answer_calls os fcs rs fld s = (Inr (rs', fld'), s') \<and> untouched s s'"
  using assms
proof (induction fcs arbitrary: rs fld s)
  case Nil
  then show ?case by (simp add: untouched_def)
next
  case (Cons fc fcs)
  from Cons.prems have one: "string_args (fc_args fc)"
    and others: "list_all (\<lambda>fc. string_args (fc_args fc)) fcs"
    by simp_all
  from call_tool_answers [OF one, of os s] obtain d s1 where
    c: "call_tool os fc s = (Inr d, s1)" "untouched s s1" by blast
  then obtain r fld1 where a: "answer_call os fc fld s = (Inr (r, fld1), s1)"
    by (simp add: answer_call_def then_do_def)
  from Cons.IH [OF others, of "rs @ [r]" fld1 s1] obtain rs' fld' s' where
    "answer_calls os fcs (rs @ [r]) fld1 s1 = (Inr (rs', fld'), s')" "untouched s1 s'"
    by blast
  with a c(2) show ?case by (auto simp: untouched_def)
qed

text \<open>
  The calls of a chunk whose arguments are all strings are all answered: with an open
  session the handling of the chunk does not raise, and the session receives one batch
  with one response for each call, in order, with its id and its name.
\<close>

lemma string_calls_are_answered:
  assumes "list_all (\<lambda>fc. string_args (fc_args fc)) fcs" and "session s = Some log"
  shows "\<exists>fld' s' responses. handle_tool_calls os fcs fld s = (Inr fld', s')
           \<and> session s' = Some (log @ [Send_tool_response responses])
           \<and> map (\<lambda>r. (tr_id r, tr_name r)) responses = map (\<lambda>fc. (fc_id fc, fc_name fc)) fcs"
proof -
  from answer_calls_answers [OF assms(1), of os "[]" fld s] obtain rs fld1 s1 where
    calls: "answer_calls os fcs [] fld s = (Inr (rs, fld1), s1)" and u: "untouched s s1"
    by blast
  from u assms(2) have "session s1 = Some log" by (simp add: untouched_def)
  then have "session_call_on (Send_tool_response rs) s1
      = Inr (s1\<lparr>session := Some (log @ [Send_tool_response rs])\<rparr>)"
    by (simp add: session_call_on_def)
  with calls answer_calls_match [OF calls] show ?thesis
    by (simp add: handle_tool_calls_def)
qed























end
